theory Spec2Isabelle
  imports Main
begin

section \<open>Values of the JavaScript runtime\<close>

text \<open>
  The argument bag of an invocation and the body of a response are values obtained by
  parsing JSON. Objects are association lists in the property order of the object.
  Strings are sequences of UTF-8 bytes. Numbers are the integer-valued ones
  (between \<open>-(2^53 - 1)\<close> and \<open>2^53 - 1\<close>, where \<open>Number.prototype.toString\<close> is the
  decimal numeral); fractional and non-finite numbers are outside the model.
  The value \<open>undefined\<close>, which reading an absent property yields, is \<open>None\<close>.

  The functions of this section are those of the runtime that the handler calls
  (ToBoolean, ToString, \<open>JSON.stringify\<close> of ECMAScript, \<open>URLSearchParams\<close> of the URL
  standard), restricted to the values above. The handler of \<open>src/index.js\<close> follows from
  the section on the call-tool handler on.
\<close>

datatype jsonval =
    JNull
  | JBool bool
  | JNum int
  | JStr string
  | JArr "jsonval list"
  | JObj "(string \<times> jsonval) list"

type_synonym jsval = "jsonval option"

type_synonym object = "(string \<times> jsonval) list"

text \<open>A completion is a normal value, or an Error object thrown, kept by its message.\<close>

type_synonym 'a completion = "string + 'a"

text \<open>Property access \<open>o.k\<close> on an object parsed from JSON.\<close>

definition get :: "object \<Rightarrow> string \<Rightarrow> jsval" where
  "get obj k = map_of obj k"

text \<open>ToBoolean: what an \<open>if\<close> or \<open>?:\<close> tests.\<close>

fun truthy :: "jsval \<Rightarrow> bool" where
  "truthy None = False"
| "truthy (Some JNull) = False"
| "truthy (Some (JBool b)) = b"
| "truthy (Some (JNum n)) = (n \<noteq> 0)"
| "truthy (Some (JStr s)) = (s \<noteq> [])"
| "truthy (Some (JArr _)) = True"
| "truthy (Some (JObj _)) = True"

subsection \<open>Number to string\<close>

definition digit :: "nat \<Rightarrow> char" where
  "digit d = ''0123456789'' ! d"

function decimal :: "nat \<Rightarrow> string" where
  "decimal n = (if n < 10 then [digit n] else decimal (n div 10) @ [digit (n mod 10)])"
  by pat_completeness auto
termination
  by (relation "measure id") auto

declare decimal.simps [simp del]

definition Number_toString :: "int \<Rightarrow> string" where
  "Number_toString n = (if n < 0 then CHR ''-'' # decimal (nat (- n)) else decimal (nat n))"

subsection \<open>ToString\<close>

text \<open>
  ToString, as a template literal \<open>`${v}`\<close> and the string conversion of the arguments
  of \<open>URLSearchParams.append\<close> apply it. An array is joined with commas, \<open>null\<close>
  elements giving the empty string. A plain object is \<open>[object Object]\<close>, unless it has
  an own property \<open>toString\<close>: a value parsed from JSON is never callable, neither method
  of ToPrimitive yields a primitive and a TypeError is thrown.
\<close>

definition join :: "string \<Rightarrow> string list \<Rightarrow> string" where
  "join sep xs = (case xs of [] \<Rightarrow> [] | y # ys \<Rightarrow> y @ concat (map (\<lambda>z. sep @ z) ys))"

fun sequence :: "'a completion list \<Rightarrow> 'a list completion" where
  "sequence [] = Inr []"
| "sequence (Inl e # _) = Inl e"
| "sequence (Inr x # cs) = (case sequence cs of Inl e \<Rightarrow> Inl e | Inr xs \<Rightarrow> Inr (x # xs))"

fun ToString_json :: "jsonval \<Rightarrow> string completion"
  and ToString_elements :: "jsonval list \<Rightarrow> string completion list" where
  "ToString_json JNull = Inr ''null''"
| "ToString_json (JBool b) = Inr (if b then ''true'' else ''false'')"
| "ToString_json (JNum n) = Inr (Number_toString n)"
| "ToString_json (JStr s) = Inr s"
| "ToString_json (JArr xs) =
     (case sequence (ToString_elements xs) of Inl e \<Rightarrow> Inl e | Inr ss \<Rightarrow> Inr (join '','' ss))"
| "ToString_json (JObj kvs) =
     (if map_of kvs ''toString'' = None then Inr ''[object Object]''
      else Inl ''Cannot convert object to primitive value'')"
| "ToString_elements [] = []"
| "ToString_elements (JNull # xs) = Inr [] # ToString_elements xs"
| "ToString_elements (x # xs) = ToString_json x # ToString_elements xs"

definition ToString :: "jsval \<Rightarrow> string completion" where
  "ToString v = (case v of None \<Rightarrow> Inr ''undefined'' | Some j \<Rightarrow> ToString_json j)"

text \<open>
  The method call \<open>v.toString()\<close>: a TypeError on \<open>undefined\<close>, on \<open>null\<close> and on an
  object whose own property \<open>toString\<close> hides the inherited method.
\<close>

definition call_toString :: "string \<Rightarrow> jsval \<Rightarrow> string completion" where
  "call_toString expr v =
     (case v of
        None \<Rightarrow> Inl (''Cannot read properties of undefined (reading 'toString')'')
      | Some JNull \<Rightarrow> Inl (''Cannot read properties of null (reading 'toString')'')
      | Some (JObj kvs) \<Rightarrow>
          (if map_of kvs ''toString'' = None then Inr ''[object Object]''
           else Inl (expr @ ''.toString is not a function''))
      | Some j \<Rightarrow> ToString_json j)"

subsection \<open>JSON.stringify\<close>

definition hex_lower :: "nat \<Rightarrow> char" where
  "hex_lower d = ''0123456789abcdef'' ! d"

text \<open>QuoteJSONString: the escapes of one character, and the quoted string.\<close>

definition quote_char :: "char \<Rightarrow> string" where
  "quote_char c =
     (let n = (of_char c :: nat) in
      if n = 8 then [CHR 0x5C, CHR ''b'']
      else if n = 9 then [CHR 0x5C, CHR ''t'']
      else if n = 10 then [CHR 0x5C, CHR ''n'']
      else if n = 12 then [CHR 0x5C, CHR ''f'']
      else if n = 13 then [CHR 0x5C, CHR ''r'']
      else if n = 34 then [CHR 0x5C, CHR 0x22]
      else if n = 92 then [CHR 0x5C, CHR 0x5C]
      else if n < 32 then [CHR 0x5C, CHR ''u'', CHR ''0'', CHR ''0'', hex_lower (n div 16), hex_lower (n mod 16)]
      else [c])"

definition QuoteJSONString :: "string \<Rightarrow> string" where
  "QuoteJSONString s = [CHR 0x22] @ concat (map quote_char s) @ [CHR 0x22]"

text \<open>
  SerializeJSONProperty with its two loops, over the elements of an array and over the
  properties of an object. \<open>gap\<close> is the indentation unit (empty for the compact form) and
  \<open>indent\<close> the indentation of the enclosing line.
\<close>

fun SerializeJSONProperty :: "string \<Rightarrow> string \<Rightarrow> jsonval \<Rightarrow> string"
  and SerializeJSONArray :: "string \<Rightarrow> string \<Rightarrow> jsonval list \<Rightarrow> string list"
  and SerializeJSONObject :: "string \<Rightarrow> string \<Rightarrow> (string \<times> jsonval) list \<Rightarrow> string list" where
  "SerializeJSONProperty gap indent JNull = ''null''"
| "SerializeJSONProperty gap indent (JBool b) = (if b then ''true'' else ''false'')"
| "SerializeJSONProperty gap indent (JNum n) = Number_toString n"
| "SerializeJSONProperty gap indent (JStr s) = QuoteJSONString s"
| "SerializeJSONProperty gap indent (JArr xs) =
     (let partial = SerializeJSONArray gap (indent @ gap) xs in
      if partial = [] then ''[]''
      else if gap = [] then ''['' @ join '','' partial @ '']''
      else ''['' @ [CHR 0x0A] @ indent @ gap @ join ('','' @ [CHR 0x0A] @ indent @ gap) partial
             @ [CHR 0x0A] @ indent @ '']'')"
| "SerializeJSONProperty gap indent (JObj kvs) =
     (let partial = SerializeJSONObject gap (indent @ gap) kvs in
      if partial = [] then ''{}''
      else if gap = [] then ''{'' @ join '','' partial @ ''}''
      else ''{'' @ [CHR 0x0A] @ indent @ gap @ join ('','' @ [CHR 0x0A] @ indent @ gap) partial
             @ [CHR 0x0A] @ indent @ ''}'')"
| "SerializeJSONArray gap indent [] = []"
| "SerializeJSONArray gap indent (x # xs) =
     SerializeJSONProperty gap indent x # SerializeJSONArray gap indent xs"
| "SerializeJSONObject gap indent [] = []"
| "SerializeJSONObject gap indent ((k, v) # kvs) =
     (QuoteJSONString k @ '':'' @ (if gap = [] then [] else '' '') @ SerializeJSONProperty gap indent v)
       # SerializeJSONObject gap indent kvs"

text \<open>\<open>JSON.stringify(value, null, space)\<close>; \<open>JSON.stringify(value)\<close> is \<open>space = 0\<close>.\<close>

definition JSON_stringify :: "jsonval \<Rightarrow> nat \<Rightarrow> string" where
  "JSON_stringify v space = SerializeJSONProperty (replicate (min 10 space) CHR '' '') [] v"

text \<open>
  An object literal \<open>{k1: e1, k2: e2}\<close> whose property values may be \<open>undefined\<close>:
  \<open>JSON.stringify\<close> leaves the properties with an undefined value out.
\<close>

definition defined_properties :: "(string \<times> jsval) list \<Rightarrow> object" where
  "defined_properties ps = concat (map (\<lambda>(k, v). case v of None \<Rightarrow> [] | Some j \<Rightarrow> [(k, j)]) ps)"

definition JSON_stringify_literal :: "(string \<times> jsval) list \<Rightarrow> string" where
  "JSON_stringify_literal ps = JSON_stringify (JObj (defined_properties ps)) 0"

subsection \<open>URLSearchParams\<close>

text \<open>
  A \<open>URLSearchParams\<close> object is its list of name-value pairs. \<open>toString\<close> is the
  application/x-www-form-urlencoded serializer of the URL standard: of each byte, the
  ASCII alphanumerics and \<open>* - . _\<close> stay, a space becomes \<open>+\<close>, every other byte is
  percent-encoded with upper-case hexadecimal digits.
\<close>

type_synonym URLSearchParams = "(string \<times> string) list"

definition hex_upper :: "nat \<Rightarrow> char" where
  "hex_upper d = ''0123456789ABCDEF'' ! d"

definition urlencode_byte :: "char \<Rightarrow> string" where
  "urlencode_byte c =
     (let n = (of_char c :: nat) in
      if (48 \<le> n \<and> n \<le> 57) \<or> (65 \<le> n \<and> n \<le> 90) \<or> (97 \<le> n \<and> n \<le> 122)
         \<or> n = 42 \<or> n = 45 \<or> n = 46 \<or> n = 95 then [c]
      else if n = 32 then ''+''
      else [CHR ''%'', hex_upper (n div 16), hex_upper (n mod 16)])"

definition urlencode :: "string \<Rightarrow> string" where
  "urlencode s = concat (map urlencode_byte s)"

definition URLSearchParams_toString :: "URLSearchParams \<Rightarrow> string" where
  "URLSearchParams_toString params = join ''&'' (map (\<lambda>(k, v). urlencode k @ ''='' @ urlencode v) params)"

text \<open>\<open>params.append(name, value)\<close>: the value is converted with ToString.\<close>

definition URLSearchParams_append :: "URLSearchParams \<Rightarrow> string \<Rightarrow> jsval \<Rightarrow> URLSearchParams completion" where
  "URLSearchParams_append params k v = (case ToString v of Inl e \<Rightarrow> Inl e | Inr s \<Rightarrow> Inr (params @ [(k, s)]))"

section \<open>The remote store, through fetch\<close>

text \<open>
  \<open>fetch\<close> is given a request and either throws (a network failure, an invalid address)
  or yields a response. Of a response the handler reads \<open>ok\<close>, which fetch defines as a
  status from 200 to 299, and the completion of \<open>response.json()\<close>, which throws when the
  body is not valid JSON. Both promises settle: a call that hangs is not modelled.
\<close>

record http_request =
  url :: string
  "method" :: string
  headers :: "(string \<times> string) list"
  body :: "string option"

record http_response =
  status :: nat
  json :: "jsonval completion"

definition ok :: "http_response \<Rightarrow> bool" where
  "ok response = (200 \<le> status response \<and> status response \<le> 299)"

record env =
  API_BASE :: string
  fetch :: "http_request \<Rightarrow> http_response completion"

section \<open>The result envelope\<close>

text \<open>\<open>isError\<close> is \<open>None\<close> where the object returned has no such property.\<close>

record content_item =
  "type" :: string
  "text" :: string

record envelope =
  content :: "content_item list"
  isError :: "bool option"

section \<open>The call-tool handler\<close>

text \<open>
  A run of the handler's \<open>try\<close> block yields the requests given to \<open>fetch\<close>, in order,
  and its completion: the envelope returned, or the message of the Error thrown.
  \<open>args\<close> is \<open>None\<close> when the request carries no \<open>arguments\<close>; reading a property of
  it then throws a TypeError.
\<close>

type_synonym run = "http_request list \<times> envelope completion"

text \<open>\<open>await fetch(request)\<close>, then the rest of the case on the response.\<close>

definition await_fetch :: "env \<Rightarrow> http_request \<Rightarrow> (http_response \<Rightarrow> envelope completion) \<Rightarrow> run" where
  "await_fetch env request rest =
     ([request], case fetch env request of Inl e \<Rightarrow> Inl e | Inr response \<Rightarrow> rest response)"

text \<open>
  The tail the three cases add_task, list_tasks and update_task share:
  \<open>const data = await response.json(); return {content: [{type: "text", text: JSON.stringify(data, null, 2)}]}\<close>.
\<close>

definition return_json :: "http_response \<Rightarrow> envelope completion" where
  "return_json response =
     (case json response of
        Inl e \<Rightarrow> Inl e
      | Inr data \<Rightarrow> Inr \<lparr>content = [\<lparr>type = ''text'', text = JSON_stringify data 2\<rparr>], isError = None\<rparr>)"

definition add_task :: "env \<Rightarrow> object option \<Rightarrow> run" where
  "add_task env args =
     (case args of
        None \<Rightarrow> ([], Inl ''Cannot read properties of undefined (reading 'name')'')
      | Some a \<Rightarrow>
          await_fetch env
            \<lparr>url = API_BASE env, method = ''POST'',
             headers = [(''Content-Type'', ''application/json'')],
             body = Some (JSON_stringify_literal
                            [(''name'', get a ''name''), (''description'', get a ''description'')])\<rparr>
            return_json)"

text \<open>The three guarded \<open>params.append\<close> calls of the list_tasks case.\<close>

definition list_tasks_params :: "object \<Rightarrow> URLSearchParams completion" where
  "list_tasks_params a =
     (case (if truthy (get a ''filter'') then URLSearchParams_append [] ''filter'' (get a ''filter'') else Inr []) of
        Inl e \<Rightarrow> Inl e
      | Inr params1 \<Rightarrow>
     (case (if truthy (get a ''sort'') then URLSearchParams_append params1 ''sort'' (get a ''sort'') else Inr params1) of
        Inl e \<Rightarrow> Inl e
      | Inr params2 \<Rightarrow>
          (if truthy (get a ''page'')
           then (case call_toString ''args.page'' (get a ''page'') of
                   Inl e \<Rightarrow> Inl e
                 | Inr s \<Rightarrow> URLSearchParams_append params2 ''page'' (Some (JStr s)))
           else Inr params2)))"

definition list_tasks :: "env \<Rightarrow> object option \<Rightarrow> run" where
  "list_tasks env args =
     (case args of
        None \<Rightarrow> ([], Inl ''Cannot read properties of undefined (reading 'filter')'')
      | Some a \<Rightarrow>
          (case list_tasks_params a of
             Inl e \<Rightarrow> ([], Inl e)
           | Inr params \<Rightarrow>
               (let url = (if URLSearchParams_toString params \<noteq> []
                           then API_BASE env @ ''?'' @ URLSearchParams_toString params
                           else API_BASE env)
                in await_fetch env \<lparr>url = url, method = ''GET'', headers = [], body = None\<rparr>
                     return_json)))"

definition update_task :: "env \<Rightarrow> object option \<Rightarrow> run" where
  "update_task env args =
     (case args of
        None \<Rightarrow> ([], Inl ''Cannot destructure property 'task_id' of 'args' as it is undefined.'')
      | Some a \<Rightarrow>
          (let task_id = get a ''task_id'';
               updateData = filter (\<lambda>(k, v). k \<noteq> ''task_id'') a
           in case ToString task_id of
                Inl e \<Rightarrow> ([], Inl e)
              | Inr segment \<Rightarrow>
                  await_fetch env
                    \<lparr>url = API_BASE env @ ''/'' @ segment, method = ''PATCH'',
                     headers = [(''Content-Type'', ''application/json'')],
                     body = Some (JSON_stringify (JObj updateData) 0)\<rparr>
                    return_json))"

definition delete_task :: "env \<Rightarrow> object option \<Rightarrow> run" where
  "delete_task env args =
     (case args of
        None \<Rightarrow> ([], Inl ''Cannot read properties of undefined (reading 'task_id')'')
      | Some a \<Rightarrow>
          (case ToString (get a ''task_id'') of
             Inl e \<Rightarrow> ([], Inl e)
           | Inr segment \<Rightarrow>
               await_fetch env
                 \<lparr>url = API_BASE env @ ''/'' @ segment, method = ''DELETE'', headers = [], body = None\<rparr>
                 (\<lambda>response.
                    case (if ok response
                          then (case ToString (get a ''task_id'') of
                                  Inl e \<Rightarrow> Inl e
                                | Inr s \<Rightarrow> Inr (''Task '' @ s @ '' deleted successfully''))
                          else (case ToString (get a ''task_id'') of
                                  Inl e \<Rightarrow> Inl e
                                | Inr s \<Rightarrow> Inr (''Failed to delete task '' @ s))) of
                      Inl e \<Rightarrow> Inl e
                    | Inr t \<Rightarrow> Inr \<lparr>content = [\<lparr>type = ''text'', text = t\<rparr>], isError = None\<rparr>)))"

text \<open>The \<open>switch\<close> on the tool name.\<close>

definition dispatch :: "env \<Rightarrow> string \<Rightarrow> object option \<Rightarrow> run" where
  "dispatch env name args =
     (if name = ''add_task'' then add_task env args
      else if name = ''list_tasks'' then list_tasks env args
      else if name = ''update_task'' then update_task env args
      else if name = ''delete_task'' then delete_task env args
      else ([], Inl (''Unknown tool: '' @ name)))"

text \<open>
  The handler: the \<open>try\<close> block, and the \<open>catch\<close> that turns an Error thrown into an
  envelope. The result is the requests made and the envelope returned.
\<close>

definition call_tool :: "env \<Rightarrow> string \<Rightarrow> object option \<Rightarrow> http_request list \<times> envelope" where
  "call_tool env name args =
     (case dispatch env name args of
        (requests, Inr result) \<Rightarrow> (requests, result)
      | (requests, Inl message) \<Rightarrow>
          (requests,
           \<lparr>content = [\<lparr>type = ''text'', text = ''Error: '' @ message\<rparr>], isError = Some True\<rparr>))"

section \<open>The tool catalog\<close>

record property_schema =
  property_type :: string
  property_description :: string

record input_schema =
  schema_type :: string
  properties :: "(string \<times> property_schema) list"
  required :: "string list"

record tool =
  tool_name :: string
  tool_description :: string
  inputSchema :: input_schema

text \<open>The list-tools handler: it takes no argument and returns a literal.\<close>

definition listTools :: "tool list" where
  "listTools =
     [\<lparr>tool_name = ''add_task'',
       tool_description = ''Creates a new to-do item on the list. Requires the name parameter.'',
       inputSchema =
         \<lparr>schema_type = ''object'',
          properties =
            [(''name'',
              \<lparr>property_type = ''string'',
               property_description = ''The concise title of the task to be added.''\<rparr>),
             (''description'',
              \<lparr>property_type = ''string'',
               property_description = ''The brief summary of the task.''\<rparr>)],
          required = [''name'']\<rparr>\<rparr>,
      \<lparr>tool_name = ''list_tasks'',
       tool_description = ''Retrieves tasks, allowing for filtering and sorting via PocketBase query syntax. Use 'filter' for specific criteria (e.g., pending tasks).'',
       inputSchema =
         \<lparr>schema_type = ''object'',
          properties =
            [(''filter'',
              \<lparr>property_type = ''string'',
               property_description = ''PocketBase filter string to select specific records (e.g., (done=false) for pending tasks). Use parentheses for conditions.''\<rparr>),
             (''sort'',
              \<lparr>property_type = ''string'',
               property_description = ''PocketBase sort string for ordering results (e.g., '-created' for newest first, 'name' for alphabetical).''\<rparr>),
             (''page'',
              \<lparr>property_type = ''integer'',
               property_description = ''The page number for paginated results (defaults to 1).''\<rparr>)],
          required = []\<rparr>\<rparr>,
      \<lparr>tool_name = ''update_task'',
       tool_description = ''Updates the task identified by task_id. Allows changing name, description, done, or archived status.'',
       inputSchema =
         \<lparr>schema_type = ''object'',
          properties =
            [(''task_id'',
              \<lparr>property_type = ''string'',
               property_description = ''The ID of the task to be updated.''\<rparr>),
             (''name'',
              \<lparr>property_type = ''string'',
               property_description = ''The new title of the task.''\<rparr>),
             (''description'',
              \<lparr>property_type = ''string'',
               property_description = ''The new description of the task.''\<rparr>),
             (''done'',
              \<lparr>property_type = ''boolean'',
               property_description = ''A flag that indicates if the task is done.''\<rparr>),
             (''archived'',
              \<lparr>property_type = ''boolean'',
               property_description = ''A flag that specifies if the task is archived.''\<rparr>)],
          required = [''task_id'']\<rparr>\<rparr>,
      \<lparr>tool_name = ''delete_task'',
       tool_description = ''Removes a specific task from the list using its ID.'',
       inputSchema =
         \<lparr>schema_type = ''object'',
          properties =
            [(''task_id'',
              \<lparr>property_type = ''string'',
               property_description = ''The ID of the task to be deleted.''\<rparr>)],
          required = [''task_id'']\<rparr>\<rparr>]"

section \<open>Stores used in the examples\<close>

text \<open>A store that cannot be reached: \<open>fetch\<close> throws.\<close>

definition refusing_fetch :: "http_request \<Rightarrow> http_response completion" where
  "refusing_fetch request = Inl ''fetch failed''"

text \<open>A store that answers every request with one status and one outcome of \<open>response.json()\<close>.\<close>

definition store_replying :: "nat \<Rightarrow> jsonval completion \<Rightarrow> http_request \<Rightarrow> http_response completion" where
  "store_replying code parsed request = Inr \<lparr>status = code, json = parsed\<rparr>"

definition records_url :: string where
  "records_url = ''http://127.0.0.1:8090/api/collections/tasks/records''"

section \<open>Runs of the handler\<close>

lemma dispatch_unknown:
  "name \<notin> {''add_task'', ''list_tasks'', ''update_task'', ''delete_task''} \<Longrightarrow>
   dispatch env name args = ([], Inl (''Unknown tool: '' @ name))"
  by (simp add: dispatch_def)

lemma add_task_run:
  "fst (add_task env args) = [request] \<Longrightarrow>
   snd (add_task env args) = (case fetch env request of Inl e \<Rightarrow> Inl e | Inr response \<Rightarrow> return_json response)"
  by (auto simp: add_task_def await_fetch_def split: option.splits)

lemma list_tasks_run:
  "fst (list_tasks env args) = [request] \<Longrightarrow>
   snd (list_tasks env args) = (case fetch env request of Inl e \<Rightarrow> Inl e | Inr response \<Rightarrow> return_json response)"
  by (auto simp: list_tasks_def await_fetch_def Let_def split: option.splits sum.splits)

lemma update_task_run:
  "fst (update_task env args) = [request] \<Longrightarrow>
   snd (update_task env args) = (case fetch env request of Inl e \<Rightarrow> Inl e | Inr response \<Rightarrow> return_json response)"
  by (auto simp: update_task_def await_fetch_def Let_def split: option.splits sum.splits)

lemma delete_task_run:
  "fst (delete_task env args) = [request] \<Longrightarrow> fetch env request = Inl e \<Longrightarrow>
   snd (delete_task env args) = Inl e"
  by (auto simp: delete_task_def await_fetch_def Let_def split: option.splits sum.splits)

lemma dispatch_requests: "length (fst (dispatch env name args)) \<le> 1"
  by (auto simp: dispatch_def add_task_def list_tasks_def update_task_def delete_task_def await_fetch_def Let_def split: option.splits sum.splits)

lemma dispatch_fetch_throws:
  "fst (dispatch env name args) = [request] \<Longrightarrow> fetch env request = Inl e \<Longrightarrow>
   snd (dispatch env name args) = Inl e"
  by (auto simp: dispatch_def add_task_run list_tasks_run update_task_run delete_task_run split: if_splits)

lemma dispatch_json_throws:
  "name \<in> {''add_task'', ''list_tasks'', ''update_task''} \<Longrightarrow>
   fst (dispatch env name args) = [request] \<Longrightarrow> fetch env request = Inr response \<Longrightarrow>
   snd (dispatch env name args) = return_json response"
  by (auto simp: dispatch_def add_task_run list_tasks_run update_task_run split: if_splits)

lemma call_tool_fst: "fst (call_tool env name args) = fst (dispatch env name args)"
  by (simp add: call_tool_def split: prod.splits sum.splits)

lemma call_tool_snd:
  "snd (call_tool env name args) =
     (case snd (dispatch env name args) of
        Inr result \<Rightarrow> result
      | Inl message \<Rightarrow> \<lparr>content = [\<lparr>type = ''text'', text = ''Error: '' @ message\<rparr>], isError = Some True\<rparr>)"
  by (simp add: call_tool_def split: prod.splits sum.splits)

lemma dispatch_single_text:
  "snd (dispatch env name args) = Inr result \<Longrightarrow> \<exists>t. result = \<lparr>content = [\<lparr>type = ''text'', text = t\<rparr>], isError = None\<rparr>"
  by (auto simp: dispatch_def add_task_def list_tasks_def update_task_def delete_task_def await_fetch_def return_json_def Let_def split: option.splits sum.splits if_splits)

lemma delete_task_requests:
  "ToString (get a ''task_id'') = Inr segment \<Longrightarrow>
   fst (delete_task env (Some a)) =
     [\<lparr>url = API_BASE env @ ''/'' @ segment, method = ''DELETE'', headers = [], body = None\<rparr>]"
  by (simp add: delete_task_def await_fetch_def)

lemma add_task_requests:
  "fst (add_task env (Some a)) =
     [\<lparr>url = API_BASE env, method = ''POST'',
       headers = [(''Content-Type'', ''application/json'')],
       body = Some (JSON_stringify_literal
                      [(''name'', get a ''name''), (''description'', get a ''description'')])\<rparr>]"
  by (simp add: add_task_def await_fetch_def)

section \<open>Conversions and request building\<close>

lemma call_toString_ToString: "call_toString expr v = Inr s \<Longrightarrow> ToString v = Inr s"
  by (auto simp: call_toString_def ToString_def split: option.splits jsonval.splits if_splits)

lemma truthy_supplied: "truthy (get a k) \<Longrightarrow> k \<in> fst ` set a"
proof -
  assume "truthy (get a k)"
  then obtain v where "map_of a k = Some v"
    by (cases "map_of a k") (simp_all add: get_def)
  then have "(k, v) \<in> set a" by (rule map_of_SomeD)
  then show ?thesis by force
qed

lemma URLSearchParams_toString_eq_Nil: "URLSearchParams_toString params = [] \<longleftrightarrow> params = []"
  by (cases params) (auto simp: URLSearchParams_toString_def join_def)

lemma list_tasks_params_names:
  "list_tasks_params a = Inr params \<Longrightarrow>
   map fst params = filter (\<lambda>k. truthy (get a k)) [''filter'', ''sort'', ''page'']"
  by (auto simp: list_tasks_params_def URLSearchParams_append_def split: if_splits sum.splits)

lemma list_tasks_params_values:
  "list_tasks_params a = Inr params \<Longrightarrow> (k, v) \<in> set params \<Longrightarrow>
   truthy (get a k) \<and> ToString (get a k) = Inr v"
  by (auto simp: list_tasks_params_def URLSearchParams_append_def ToString_def split: if_splits sum.splits
      dest: call_toString_ToString)

lemma list_tasks_requests_Inr:
  "list_tasks_params a = Inr params \<Longrightarrow>
   fst (list_tasks env (Some a)) =
     [\<lparr>url = API_BASE env @ (if params = [] then [] else ''?'' @ URLSearchParams_toString params),
       method = ''GET'', headers = [], body = None\<rparr>]"
  by (auto simp: list_tasks_def await_fetch_def Let_def URLSearchParams_toString_eq_Nil)

lemma list_tasks_requests:
  assumes "fst (list_tasks env args) = [request]"
  shows "\<exists>a params. args = Some a \<and> list_tasks_params a = Inr params \<and>
     request = \<lparr>url = API_BASE env @ (if params = [] then [] else ''?'' @ URLSearchParams_toString params),
                method = ''GET'', headers = [], body = None\<rparr>"
proof (cases args)
  case None
  with assms show ?thesis by (simp add: list_tasks_def)
next
  case (Some a)
  show ?thesis
  proof (cases "list_tasks_params a")
    case (Inl e)
    with Some assms show ?thesis by (simp add: list_tasks_def)
  next
    case (Inr params)
    from list_tasks_requests_Inr [OF Inr, of env] assms Some
    have "request = \<lparr>url = API_BASE env @ (if params = [] then [] else ''?'' @ URLSearchParams_toString params),
                method = ''GET'', headers = [], body = None\<rparr>"
      by simp
    with Some Inr show ?thesis by simp
  qed
qed

lemma digit_unreserved: "d < 10 \<Longrightarrow> urlencode_byte (digit d) = [digit d]"
proof -
  assume "d < 10"
  then have "d \<in> {0, 1, 2, 3, 4, 5, 6, 7, 8, 9}" by auto
  then show ?thesis
    by (auto simp: urlencode_byte_def digit_def Let_def)
qed

lemma urlencode_append: "urlencode (xs @ ys) = urlencode xs @ urlencode ys"
  by (simp add: urlencode_def)

lemma urlencode_decimal: "urlencode (decimal n) = decimal n"
proof (induction n rule: decimal.induct)
  case (1 n)
  show ?case
  proof (cases "n < 10")
    case True
    then show ?thesis
      by (simp add: decimal.simps [of n] urlencode_def digit_unreserved)
  next
    case False
    with "1" have "urlencode (decimal (n div 10)) = decimal (n div 10)" by simp
    moreover have "urlencode [digit (n mod 10)] = [digit (n mod 10)]"
      by (simp add: urlencode_def digit_unreserved)
    ultimately show ?thesis
      using False by (simp add: decimal.simps [of n] urlencode_append)
  qed
qed

lemma urlencode_Number_toString: "urlencode (Number_toString n) = Number_toString n"
proof (cases "n < 0")
  case True
  have "urlencode (CHR ''-'' # decimal (nat (- n))) = urlencode ''-'' @ urlencode (decimal (nat (- n)))"
    by (simp add: urlencode_def)
  also have "urlencode ''-'' = ''-''"
    by (simp add: urlencode_def urlencode_byte_def Let_def)
  finally show ?thesis using True by (simp add: Number_toString_def urlencode_decimal)
next
  case False
  then show ?thesis by (simp add: Number_toString_def urlencode_decimal)
qed

lemma urlencode_names:
  "urlencode ''filter'' = ''filter''" "urlencode ''sort'' = ''sort''" "urlencode ''page'' = ''page''"
  by (simp_all add: urlencode_def urlencode_byte_def Let_def)

lemma urlencode_example:
  "urlencode ''(done=false)'' = ''%28done%3Dfalse%29''" "urlencode ''-created'' = ''-created''"
  by (simp_all add: urlencode_def urlencode_byte_def hex_upper_def Let_def)

lemma Number_toString_2: "Number_toString 2 = ''2''"
  by (simp add: Number_toString_def decimal.simps digit_def)

lemma list_tasks_params_typed:
  "get a ''filter'' = Some (JStr f) \<Longrightarrow> f \<noteq> [] \<Longrightarrow> get a ''sort'' = Some (JStr s) \<Longrightarrow> s \<noteq> [] \<Longrightarrow>
   get a ''page'' = Some (JNum p) \<Longrightarrow> p \<noteq> 0 \<Longrightarrow>
   list_tasks_params a = Inr [(''filter'', f), (''sort'', s), (''page'', Number_toString p)]"
  by (simp add: list_tasks_params_def URLSearchParams_append_def ToString_def call_toString_def)

lemma list_tasks_params_none:
  "\<not> truthy (get a ''filter'') \<Longrightarrow> \<not> truthy (get a ''sort'') \<Longrightarrow> \<not> truthy (get a ''page'') \<Longrightarrow>
   list_tasks_params a = Inr []"
  by (simp add: list_tasks_params_def)

lemma URLSearchParams_toString_three:
  "URLSearchParams_toString [(''filter'', f), (''sort'', s), (''page'', p)] =
     ''filter='' @ urlencode f @ ''&sort='' @ urlencode s @ ''&page='' @ urlencode p"
  by (simp add: URLSearchParams_toString_def join_def urlencode_names)

section \<open>Requests and results of the four cases\<close>

lemma return_json_Inr:
  "json response = Inr data \<Longrightarrow>
   return_json response =
     Inr \<lparr>content = [\<lparr>type = ''text'', text = JSON_stringify data 2\<rparr>], isError = None\<rparr>"
  by (simp add: return_json_def)

lemma update_task_requests:
  "ToString (get a ''task_id'') = Inr segment \<Longrightarrow>
   fst (update_task env (Some a)) =
     [\<lparr>url = API_BASE env @ ''/'' @ segment, method = ''PATCH'',
       headers = [(''Content-Type'', ''application/json'')],
       body = Some (JSON_stringify (JObj (filter (\<lambda>(k, v). k \<noteq> ''task_id'') a)) 0)\<rparr>]"
  by (simp add: update_task_def await_fetch_def)

lemma update_task_throws:
  "ToString (get a ''task_id'') = Inl e \<Longrightarrow> update_task env (Some a) = ([], Inl e)"
  by (simp add: update_task_def)

lemma delete_task_result:
  "ToString (get a ''task_id'') = Inr segment \<Longrightarrow>
   fetch env \<lparr>url = API_BASE env @ ''/'' @ segment, method = ''DELETE'', headers = [], body = None\<rparr>
     = Inr response \<Longrightarrow>
   snd (delete_task env (Some a)) =
     Inr \<lparr>content = [\<lparr>type = ''text'',
                        text = (if ok response then ''Task '' @ segment @ '' deleted successfully''
                                else ''Failed to delete task '' @ segment)\<rparr>],
          isError = None\<rparr>"
  by (simp add: delete_task_def await_fetch_def)

lemma delete_task_requests_cases:
  assumes "fst (delete_task env args) = [request]"
  shows "\<exists>a segment. args = Some a \<and> ToString (get a ''task_id'') = Inr segment \<and>
     request = \<lparr>url = API_BASE env @ ''/'' @ segment, method = ''DELETE'', headers = [], body = None\<rparr>"
proof (cases args)
  case None
  with assms show ?thesis by (simp add: delete_task_def)
next
  case (Some a)
  show ?thesis
  proof (cases "ToString (get a ''task_id'')")
    case (Inl e)
    with Some assms show ?thesis by (simp add: delete_task_def)
  next
    case (Inr segment)
    from delete_task_requests [OF Inr, of env] assms Some
    have "request = \<lparr>url = API_BASE env @ ''/'' @ segment, method = ''DELETE'', headers = [], body = None\<rparr>"
      by simp
    with Some Inr show ?thesis by simp
  qed
qed

lemma get_without:
  "get (filter (\<lambda>(k', v). k' \<noteq> k) a) k' = (if k' = k then None else get a k')"
  by (induction a) (auto simp: get_def)

lemma without_absent: "get a k = None \<Longrightarrow> filter (\<lambda>(k', v). k' \<noteq> k) a = a"
  by (induction a) (auto simp: get_def split: if_splits)

lemma list_tasks_params_falsy_filter:
  "\<not> truthy (get a ''filter'') \<Longrightarrow>
   list_tasks_params (filter (\<lambda>(k', v). k' \<noteq> ''filter'') a) = list_tasks_params a"
  by (simp add: list_tasks_params_def get_without cong: sum.case_cong)

lemma list_tasks_params_falsy_sort:
  "\<not> truthy (get a ''sort'') \<Longrightarrow>
   list_tasks_params (filter (\<lambda>(k', v). k' \<noteq> ''sort'') a) = list_tasks_params a"
  by (simp add: list_tasks_params_def get_without cong: sum.case_cong)

lemma list_tasks_params_falsy_page:
  "\<not> truthy (get a ''page'') \<Longrightarrow>
   list_tasks_params (filter (\<lambda>(k', v). k' \<noteq> ''page'') a) = list_tasks_params a"
  by (simp add: list_tasks_params_def get_without cong: sum.case_cong)

lemma list_tasks_params_falsy:
  "k \<in> {''filter'', ''sort'', ''page''} \<Longrightarrow> \<not> truthy (get a k) \<Longrightarrow>
   list_tasks_params (filter (\<lambda>(k', v). k' \<noteq> k) a) = list_tasks_params a"
  using list_tasks_params_falsy_filter list_tasks_params_falsy_sort list_tasks_params_falsy_page
  by blast

lemma list_tasks_cong:
  "list_tasks_params a = list_tasks_params b \<Longrightarrow> list_tasks env (Some a) = list_tasks env (Some b)"
  by (simp add: list_tasks_def)

lemma JSON_stringify_buy_milk:
  "JSON_stringify_literal [(''name'', Some (JStr ''Buy milk'')), (''description'', None)] =
     ''{'' @ [CHR 0x22] @ ''name'' @ [CHR 0x22] @ '':'' @ [CHR 0x22] @ ''Buy milk'' @ [CHR 0x22] @ ''}''"
  by (simp add: JSON_stringify_literal_def defined_properties_def JSON_stringify_def
      QuoteJSONString_def quote_char_def join_def Let_def)

lemma JSON_stringify_done:
  "JSON_stringify (JObj [(''done'', JBool True)]) 0 = ''{'' @ [CHR 0x22] @ ''done'' @ [CHR 0x22] @ '':true}''"
  by (simp add: JSON_stringify_def QuoteJSONString_def quote_char_def join_def Let_def)

lemma delete_task_snd:
  "ToString (get a ''task_id'') = Inr segment \<Longrightarrow>
   snd (delete_task env (Some a)) =
     (case fetch env \<lparr>url = API_BASE env @ ''/'' @ segment, method = ''DELETE'', headers = [], body = None\<rparr> of
        Inl e \<Rightarrow> Inl e
      | Inr response \<Rightarrow>
          Inr \<lparr>content = [\<lparr>type = ''text'',
                             text = (if ok response then ''Task '' @ segment @ '' deleted successfully''
                                     else ''Failed to delete task '' @ segment)\<rparr>],
               isError = None\<rparr>)"
  by (simp add: delete_task_def await_fetch_def split: sum.splits)

section \<open>The error boundary\<close>

text \<open>
  C1. Every invocation returns one envelope, whose content is a single text segment, and
  nothing is thrown past the handler: an Error thrown while dispatching (by \<open>fetch\<close>
  on a network failure, by \<open>response.json()\<close> on a malformed body, by the default case
  on an unknown tool name) becomes the envelope with the text \<open>Error: <message>\<close> and
  \<open>isError\<close> true.
\<close>

theorem call_tool_never_throws:
  "(\<exists>t. content (snd (call_tool env name args)) = [\<lparr>type = ''text'', text = t\<rparr>])
   \<and> (\<forall>message. snd (dispatch env name args) = Inl message \<longrightarrow>
         snd (call_tool env name args) =
           \<lparr>content = [\<lparr>type = ''text'', text = ''Error: '' @ message\<rparr>], isError = Some True\<rparr>)
   \<and> (\<forall>request message.
         fst (call_tool env name args) = [request] \<and> fetch env request = Inl message \<longrightarrow>
         snd (call_tool env name args) =
           \<lparr>content = [\<lparr>type = ''text'', text = ''Error: '' @ message\<rparr>], isError = Some True\<rparr>)
   \<and> (\<forall>request response message.
         name \<in> {''add_task'', ''list_tasks'', ''update_task''} \<and>
         fst (call_tool env name args) = [request] \<and> fetch env request = Inr response \<and>
         json response = Inl message \<longrightarrow>
         snd (call_tool env name args) =
           \<lparr>content = [\<lparr>type = ''text'', text = ''Error: '' @ message\<rparr>], isError = Some True\<rparr>)
   \<and> (name \<notin> {''add_task'', ''list_tasks'', ''update_task'', ''delete_task''} \<longrightarrow>
         snd (call_tool env name args) =
           \<lparr>content = [\<lparr>type = ''text'', text = ''Error: Unknown tool: '' @ name\<rparr>], isError = Some True\<rparr>)"
proof (intro conjI allI impI)
  show "\<exists>t. content (snd (call_tool env name args)) = [\<lparr>type = ''text'', text = t\<rparr>]"
  proof (cases "snd (dispatch env name args)")
    case (Inl message)
    then show ?thesis by (simp add: call_tool_snd)
  next
    case (Inr result)
    with dispatch_single_text [OF Inr] show ?thesis by (auto simp: call_tool_snd)
  qed
next
  fix message
  assume "snd (dispatch env name args) = Inl message"
  then show "snd (call_tool env name args) =
      \<lparr>content = [\<lparr>type = ''text'', text = ''Error: '' @ message\<rparr>], isError = Some True\<rparr>"
    by (simp add: call_tool_snd)
next
  fix request message
  assume "fst (call_tool env name args) = [request] \<and> fetch env request = Inl message"
  then have "snd (dispatch env name args) = Inl message"
    by (simp add: call_tool_fst dispatch_fetch_throws)
  then show "snd (call_tool env name args) =
      \<lparr>content = [\<lparr>type = ''text'', text = ''Error: '' @ message\<rparr>], isError = Some True\<rparr>"
    by (simp add: call_tool_snd)
next
  fix request response message
  assume a: "name \<in> {''add_task'', ''list_tasks'', ''update_task''} \<and>
         fst (call_tool env name args) = [request] \<and> fetch env request = Inr response \<and>
         json response = Inl message"
  then have "snd (dispatch env name args) = return_json response"
    using dispatch_json_throws [of name env args request response] by (simp add: call_tool_fst)
  with a have "snd (dispatch env name args) = Inl message"
    by (simp add: return_json_def)
  then show "snd (call_tool env name args) =
      \<lparr>content = [\<lparr>type = ''text'', text = ''Error: '' @ message\<rparr>], isError = Some True\<rparr>"
    by (simp add: call_tool_snd)
next
  assume "name \<notin> {''add_task'', ''list_tasks'', ''update_task'', ''delete_task''}"
  then show "snd (call_tool env name args) =
      \<lparr>content = [\<lparr>type = ''text'', text = ''Error: Unknown tool: '' @ name\<rparr>], isError = Some True\<rparr>"
    by (simp add: call_tool_snd dispatch_unknown)
qed

theorem call_tool_never_throws_witness:
  "snd (call_tool \<lparr>API_BASE = records_url, fetch = refusing_fetch\<rparr> ''delete_task''
          (Some [(''task_id'', JStr ''abc123'')])) =
     \<lparr>content = [\<lparr>type = ''text'', text = ''Error: fetch failed''\<rparr>], isError = Some True\<rparr>
   \<and> snd (call_tool \<lparr>API_BASE = records_url,
                     fetch = store_replying 200 (Inl ''Unexpected end of JSON input'')\<rparr>
            ''add_task'' (Some [(''name'', JStr ''Buy milk'')])) =
     \<lparr>content = [\<lparr>type = ''text'', text = ''Error: Unexpected end of JSON input''\<rparr>],
      isError = Some True\<rparr>
   \<and> snd (call_tool \<lparr>API_BASE = records_url, fetch = refusing_fetch\<rparr> ''frobnicate'' None) =
     \<lparr>content = [\<lparr>type = ''text'', text = ''Error: Unknown tool: frobnicate''\<rparr>], isError = Some True\<rparr>"
proof (intro conjI)
  let ?env = "\<lparr>API_BASE = records_url, fetch = refusing_fetch\<rparr>"
  let ?args = "Some [(''task_id'', JStr ''abc123'')]"
  let ?request = "\<lparr>url = records_url @ ''/abc123'', method = ''DELETE'', headers = [], body = None\<rparr>"
  note network = call_tool_never_throws [of ?env "''delete_task''" ?args,
      THEN conjunct2, THEN conjunct2, THEN conjunct1, rule_format, of ?request "''fetch failed''"]
  have "fst (call_tool ?env ''delete_task'' ?args) = [?request] \<and> fetch ?env ?request = Inl ''fetch failed''"
    by (simp add: call_tool_fst dispatch_def delete_task_requests ToString_def get_def refusing_fetch_def)
  from network [OF this]
  show "snd (call_tool ?env ''delete_task'' ?args) =
     \<lparr>content = [\<lparr>type = ''text'', text = ''Error: fetch failed''\<rparr>], isError = Some True\<rparr>"
    by simp
next
  let ?env = "\<lparr>API_BASE = records_url, fetch = store_replying 200 (Inl ''Unexpected end of JSON input'')\<rparr>"
  let ?args = "Some [(''name'', JStr ''Buy milk'')]"
  let ?request = "\<lparr>url = records_url, method = ''POST'',
       headers = [(''Content-Type'', ''application/json'')],
       body = Some (JSON_stringify_literal [(''name'', Some (JStr ''Buy milk'')), (''description'', None)])\<rparr>"
  let ?response = "\<lparr>status = 200, json = Inl ''Unexpected end of JSON input''\<rparr>"
  note malformed = call_tool_never_throws [of ?env "''add_task''" ?args,
      THEN conjunct2, THEN conjunct2, THEN conjunct2, THEN conjunct1, rule_format,
      of ?request ?response "''Unexpected end of JSON input''"]
  have "''add_task'' \<in> {''add_task'', ''list_tasks'', ''update_task''} \<and>
     fst (call_tool ?env ''add_task'' ?args) = [?request] \<and> fetch ?env ?request = Inr ?response
     \<and> json ?response = Inl ''Unexpected end of JSON input''"
    by (simp add: call_tool_fst dispatch_def add_task_requests get_def store_replying_def)
  from malformed [OF this]
  show "snd (call_tool ?env ''add_task'' ?args) =
     \<lparr>content = [\<lparr>type = ''text'', text = ''Error: Unexpected end of JSON input''\<rparr>],
      isError = Some True\<rparr>"
    by simp
next
  let ?env = "\<lparr>API_BASE = records_url, fetch = refusing_fetch\<rparr>"
  note unknown = call_tool_never_throws [of ?env "''frobnicate''" None,
      THEN conjunct2, THEN conjunct2, THEN conjunct2, THEN conjunct2, rule_format]
  have "''frobnicate'' \<notin> {''add_task'', ''list_tasks'', ''update_task'', ''delete_task''}"
    by simp
  from unknown [OF this]
  show "snd (call_tool ?env ''frobnicate'' None) =
     \<lparr>content = [\<lparr>type = ''text'', text = ''Error: Unknown tool: frobnicate''\<rparr>], isError = Some True\<rparr>"
    by simp
qed

section \<open>The catalog\<close>

text \<open>
  C2. \<open>listTools\<close> is a constant: no input, no effect, no failure. It holds four
  descriptors, in the order add_task, list_tasks, update_task, delete_task, with the
  required fields \<open>name\<close> for add_task, none for list_tasks, \<open>task_id\<close> for
  update_task and \<open>task_id\<close> for delete_task.
\<close>

theorem listTools_catalog:
  "map tool_name listTools = [''add_task'', ''list_tasks'', ''update_task'', ''delete_task'']
   \<and> map (\<lambda>t. required (inputSchema t)) listTools = [[''name''], [], [''task_id''], [''task_id'']]"
  by (simp add: listTools_def)

section \<open>Unknown tools\<close>

text \<open>
  C3. A tool name other than the four registered ones yields, without any request and
  without throwing, the error envelope whose only text is \<open>Error: Unknown tool: <name>\<close>;
  for \<open>frobnicate\<close> the text is \<open>Error: Unknown tool: frobnicate\<close>.
\<close>

theorem unknown_tool_error:
  "name \<notin> {''add_task'', ''list_tasks'', ''update_task'', ''delete_task''} \<Longrightarrow>
   call_tool env name args =
     ([], \<lparr>content = [\<lparr>type = ''text'', text = ''Error: Unknown tool: '' @ name\<rparr>],
           isError = Some True\<rparr>)"
  by (simp add: call_tool_def dispatch_unknown)

theorem unknown_tool_error_witness:
  "''frobnicate'' \<notin> {''add_task'', ''list_tasks'', ''update_task'', ''delete_task''}
   \<and> call_tool \<lparr>API_BASE = records_url, fetch = refusing_fetch\<rparr>
         ''frobnicate'' (Some []) =
     ([], \<lparr>content = [\<lparr>type = ''text'', text = ''Error: Unknown tool: frobnicate''\<rparr>],
           isError = Some True\<rparr>)"
proof -
  have h: "''frobnicate'' \<notin> {''add_task'', ''list_tasks'', ''update_task'', ''delete_task''}"
    by simp
  show ?thesis
    using h unknown_tool_error [OF h, of "\<lparr>API_BASE = records_url, fetch = refusing_fetch\<rparr>" "Some []"]
    by simp
qed

section \<open>The query string of list_tasks\<close>

text \<open>
  C4, as amended. Every request made by list_tasks is a GET whose address is the base
  address followed, when a parameter was appended, by \<open>?\<close> and the serialized
  parameters. Their names are those of \<open>filter\<close>, \<open>sort\<close>, \<open>page\<close>, in this order,
  whose value is truthy; each is a key of the argument bag and carries the string form of
  its value, a number (an integer below \<open>2^53\<close> in absolute value) by its decimal
  numeral. With none of the three keys in the bag the
  address is the base address alone. For \<open>{filter: "(done=false)", sort: "-created", page: 2}\<close>
  the query string is \<open>filter=%28done%3Dfalse%29&sort=-created&page=2\<close>: the serializer
  of \<open>URLSearchParams\<close> percent-encodes the parentheses as well as the equals sign.
\<close>

theorem list_tasks_query:
  "(\<forall>request. fst (call_tool env ''list_tasks'' args) = [request] \<longrightarrow>
      (\<exists>a params. args = Some a
         \<and> map fst params = filter (\<lambda>k. truthy (get a k)) [''filter'', ''sort'', ''page'']
         \<and> (\<forall>k v. (k, v) \<in> set params \<longrightarrow> k \<in> fst ` set a \<and> ToString (get a k) = Inr v)
         \<and> request =
             \<lparr>url = API_BASE env @ (if params = [] then [] else ''?'' @ URLSearchParams_toString params),
              method = ''GET'', headers = [], body = None\<rparr>))
   \<and> (get b ''filter'' = Some (JStr f) \<and> f \<noteq> [] \<and> get b ''sort'' = Some (JStr s) \<and> s \<noteq> [] \<and>
      get b ''page'' = Some (JNum p) \<and> p \<noteq> 0 \<and> - (2 ^ 53) < p \<and> p < 2 ^ 53 \<longrightarrow>
        fst (call_tool env ''list_tasks'' (Some b)) =
          [\<lparr>url = API_BASE env @ ''?filter='' @ urlencode f @ ''&sort='' @ urlencode s
                   @ ''&page='' @ Number_toString p,
            method = ''GET'', headers = [], body = None\<rparr>])
   \<and> (get c ''filter'' = None \<and> get c ''sort'' = None \<and> get c ''page'' = None \<longrightarrow>
        fst (call_tool env ''list_tasks'' (Some c)) =
          [\<lparr>url = API_BASE env, method = ''GET'', headers = [], body = None\<rparr>])
   \<and> fst (call_tool env ''list_tasks''
             (Some [(''filter'', JStr ''(done=false)''), (''sort'', JStr ''-created''), (''page'', JNum 2)])) =
          [\<lparr>url = API_BASE env @ ''?filter=%28done%3Dfalse%29&sort=-created&page=2'',
            method = ''GET'', headers = [], body = None\<rparr>]"
proof (intro conjI allI impI)
  fix request
  assume "fst (call_tool env ''list_tasks'' args) = [request]"
  then have "fst (list_tasks env args) = [request]"
    by (simp add: call_tool_fst dispatch_def)
  from list_tasks_requests [OF this] obtain a params where
    args: "args = Some a" and params: "list_tasks_params a = Inr params" and
    request: "request = \<lparr>url = API_BASE env @ (if params = [] then [] else ''?'' @ URLSearchParams_toString params),
                method = ''GET'', headers = [], body = None\<rparr>"
    by blast
  have "\<forall>k v. (k, v) \<in> set params \<longrightarrow> k \<in> fst ` set a \<and> ToString (get a k) = Inr v"
    using list_tasks_params_values [OF params] truthy_supplied by blast
  with args request list_tasks_params_names [OF params]
  show "\<exists>a params. args = Some a
         \<and> map fst params = filter (\<lambda>k. truthy (get a k)) [''filter'', ''sort'', ''page'']
         \<and> (\<forall>k v. (k, v) \<in> set params \<longrightarrow> k \<in> fst ` set a \<and> ToString (get a k) = Inr v)
         \<and> request =
             \<lparr>url = API_BASE env @ (if params = [] then [] else ''?'' @ URLSearchParams_toString params),
              method = ''GET'', headers = [], body = None\<rparr>"
    by (intro exI [of _ a] exI [of _ params] conjI)
next
  assume h: "get b ''filter'' = Some (JStr f) \<and> f \<noteq> [] \<and> get b ''sort'' = Some (JStr s) \<and> s \<noteq> [] \<and>
      get b ''page'' = Some (JNum p) \<and> p \<noteq> 0 \<and> - (2 ^ 53) < p \<and> p < 2 ^ 53"
  then have "list_tasks_params b = Inr [(''filter'', f), (''sort'', s), (''page'', Number_toString p)]"
    by (intro list_tasks_params_typed) simp_all
  from list_tasks_requests_Inr [OF this]
  show "fst (call_tool env ''list_tasks'' (Some b)) =
          [\<lparr>url = API_BASE env @ ''?filter='' @ urlencode f @ ''&sort='' @ urlencode s
                   @ ''&page='' @ Number_toString p,
            method = ''GET'', headers = [], body = None\<rparr>]"
    by (simp add: call_tool_fst dispatch_def URLSearchParams_toString_three urlencode_Number_toString)
next
  assume "get c ''filter'' = None \<and> get c ''sort'' = None \<and> get c ''page'' = None"
  then have "list_tasks_params c = Inr []"
    by (intro list_tasks_params_none) simp_all
  from list_tasks_requests_Inr [OF this]
  show "fst (call_tool env ''list_tasks'' (Some c)) =
          [\<lparr>url = API_BASE env, method = ''GET'', headers = [], body = None\<rparr>]"
    by (simp add: call_tool_fst dispatch_def)
next
  let ?a = "[(''filter'', JStr ''(done=false)''), (''sort'', JStr ''-created''), (''page'', JNum 2)]"
  have "list_tasks_params ?a = Inr [(''filter'', ''(done=false)''), (''sort'', ''-created''), (''page'', Number_toString 2)]"
    by (rule list_tasks_params_typed) (simp_all add: get_def)
  from list_tasks_requests_Inr [OF this]
  show "fst (call_tool env ''list_tasks'' (Some ?a)) =
          [\<lparr>url = API_BASE env @ ''?filter=%28done%3Dfalse%29&sort=-created&page=2'',
            method = ''GET'', headers = [], body = None\<rparr>]"
    by (simp add: call_tool_fst dispatch_def URLSearchParams_toString_three urlencode_example
        Number_toString_2
        urlencode_Number_toString [of 2, unfolded Number_toString_2])
qed

text \<open>
  The theorem at a bag with all three parameters, at the empty bag, and at a bag with
  \<open>sort\<close> alone.
\<close>

theorem list_tasks_query_witness:
  "fst (call_tool \<lparr>API_BASE = records_url, fetch = refusing_fetch\<rparr> ''list_tasks''
          (Some [(''filter'', JStr ''(done=true)''), (''sort'', JStr ''name''), (''page'', JNum 12)])) =
     [\<lparr>url = records_url @ ''?filter=%28done%3Dtrue%29&sort=name&page=12'',
       method = ''GET'', headers = [], body = None\<rparr>]
   \<and> fst (call_tool \<lparr>API_BASE = records_url, fetch = refusing_fetch\<rparr> ''list_tasks'' (Some [])) =
     [\<lparr>url = records_url, method = ''GET'', headers = [], body = None\<rparr>]
   \<and> (\<exists>a params. Some [(''sort'', JStr ''name'')] = Some a
         \<and> map fst params = filter (\<lambda>k. truthy (get a k)) [''filter'', ''sort'', ''page'']
         \<and> (\<forall>k v. (k, v) \<in> set params \<longrightarrow> k \<in> fst ` set a \<and> ToString (get a k) = Inr v)
         \<and> \<lparr>url = records_url @ ''?sort=name'', method = ''GET'', headers = [], body = None\<rparr> =
             \<lparr>url = API_BASE \<lparr>API_BASE = records_url, fetch = refusing_fetch\<rparr>
                      @ (if params = [] then [] else ''?'' @ URLSearchParams_toString params),
              method = ''GET'', headers = [], body = None\<rparr>)"
proof (intro conjI)
  let ?env = "\<lparr>API_BASE = records_url, fetch = refusing_fetch\<rparr>"
  let ?b = "[(''filter'', JStr ''(done=true)''), (''sort'', JStr ''name''), (''page'', JNum 12)]"
  note typed = list_tasks_query [where env = ?env and b = ?b and f = "''(done=true)''"
      and s = "''name''" and p = 12, THEN conjunct2, THEN conjunct1, rule_format]
  have "get ?b ''filter'' = Some (JStr ''(done=true)'') \<and> ''(done=true)'' \<noteq> [] \<and>
      get ?b ''sort'' = Some (JStr ''name'') \<and> ''name'' \<noteq> [] \<and>
      get ?b ''page'' = Some (JNum 12) \<and> (12::int) \<noteq> 0 \<and> - (2 ^ 53) < (12::int) \<and>
      (12::int) < 2 ^ 53"
    by (simp add: get_def)
  from typed [OF this]
  show "fst (call_tool ?env ''list_tasks'' (Some ?b)) =
     [\<lparr>url = records_url @ ''?filter=%28done%3Dtrue%29&sort=name&page=12'',
       method = ''GET'', headers = [], body = None\<rparr>]"
    by (simp add: urlencode_def urlencode_byte_def hex_upper_def Let_def Number_toString_def
        decimal.simps digit_def)
next
  let ?env = "\<lparr>API_BASE = records_url, fetch = refusing_fetch\<rparr>"
  note none = list_tasks_query [where env = ?env and c = "[]", THEN conjunct2, THEN conjunct2,
      THEN conjunct1, rule_format]
  have "get [] ''filter'' = None \<and> get [] ''sort'' = None \<and> get [] ''page'' = None"
    by (simp add: get_def)
  from none [OF this]
  show "fst (call_tool ?env ''list_tasks'' (Some [])) =
     [\<lparr>url = records_url, method = ''GET'', headers = [], body = None\<rparr>]"
    by simp
next
  let ?env = "\<lparr>API_BASE = records_url, fetch = refusing_fetch\<rparr>"
  let ?request = "\<lparr>url = records_url @ ''?sort=name'', method = ''GET'', headers = [], body = None\<rparr>"
  note any = list_tasks_query [where env = ?env and args = "Some [(''sort'', JStr ''name'')]",
      THEN conjunct1, rule_format, of ?request]
  have "list_tasks_params [(''sort'', JStr ''name'')] = Inr [(''sort'', ''name'')]"
    by (simp add: list_tasks_params_def get_def URLSearchParams_append_def ToString_def)
  from list_tasks_requests_Inr [OF this, of ?env]
  have "fst (call_tool ?env ''list_tasks'' (Some [(''sort'', JStr ''name'')])) = [?request]"
    by (simp add: call_tool_fst dispatch_def URLSearchParams_toString_def join_def urlencode_def
        urlencode_byte_def Let_def)
  from any [OF this]
  show "\<exists>a params. Some [(''sort'', JStr ''name'')] = Some a
         \<and> map fst params = filter (\<lambda>k. truthy (get a k)) [''filter'', ''sort'', ''page'']
         \<and> (\<forall>k v. (k, v) \<in> set params \<longrightarrow> k \<in> fst ` set a \<and> ToString (get a k) = Inr v)
         \<and> ?request =
             \<lparr>url = API_BASE ?env
                      @ (if params = [] then [] else ''?'' @ URLSearchParams_toString params),
              method = ''GET'', headers = [], body = None\<rparr>" .
qed

text \<open>
  C4 as stated fails at its own example: the query string of the request is
  \<open>filter=%28done%3Dfalse%29&sort=-created&page=2\<close> and not
  \<open>filter=(done%3Dfalse)&sort=-created&page=2\<close>, where the parentheses stand unencoded.
\<close>

theorem list_tasks_query_counterexample:
  "map url (fst (call_tool \<lparr>API_BASE = records_url, fetch = refusing_fetch\<rparr> ''list_tasks''
                   (Some [(''filter'', JStr ''(done=false)''), (''sort'', JStr ''-created''),
                          (''page'', JNum 2)])))
   = [records_url @ ''?'' @ ''filter=%28done%3Dfalse%29&sort=-created&page=2'']
   \<and> map url (fst (call_tool \<lparr>API_BASE = records_url, fetch = refusing_fetch\<rparr> ''list_tasks''
                   (Some [(''filter'', JStr ''(done=false)''), (''sort'', JStr ''-created''),
                          (''page'', JNum 2)])))
   \<noteq> [records_url @ ''?'' @ ''filter=(done%3Dfalse)&sort=-created&page=2'']"
proof -
  let ?a = "[(''filter'', JStr ''(done=false)''), (''sort'', JStr ''-created''), (''page'', JNum 2)]"
  have "list_tasks_params ?a = Inr [(''filter'', ''(done=false)''), (''sort'', ''-created''), (''page'', Number_toString 2)]"
    by (rule list_tasks_params_typed) (simp_all add: get_def)
  from list_tasks_requests_Inr [OF this]
  show ?thesis
    by (simp add: call_tool_fst dispatch_def URLSearchParams_toString_three urlencode_example
        Number_toString_2
        urlencode_Number_toString [of 2, unfolded Number_toString_2])
qed

section \<open>add_task\<close>

text \<open>
  C5. add_task with \<open>{name: "Buy milk"}\<close> makes exactly one request, a POST to the base
  address whose body is \<open>JSON.stringify({name: "Buy milk", description: undefined})\<close>, that
  is \<open>{"name":"Buy milk"}\<close>; when the store answers and the body of the answer parses
  to \<open>data\<close>, the envelope returned is not an error and its only text is
  \<open>JSON.stringify(data, null, 2)\<close>.
\<close>

theorem add_task_buy_milk:
  "fst (call_tool env ''add_task'' (Some [(''name'', JStr ''Buy milk'')])) =
     [\<lparr>url = API_BASE env, method = ''POST'',
       headers = [(''Content-Type'', ''application/json'')],
       body = Some (JSON_stringify_literal
                      [(''name'', Some (JStr ''Buy milk'')), (''description'', None)])\<rparr>]
   \<and> JSON_stringify_literal [(''name'', Some (JStr ''Buy milk'')), (''description'', None)] =
       ''{'' @ [CHR 0x22] @ ''name'' @ [CHR 0x22] @ '':'' @ [CHR 0x22] @ ''Buy milk'' @ [CHR 0x22] @ ''}''
   \<and> (fetch env
         \<lparr>url = API_BASE env, method = ''POST'',
          headers = [(''Content-Type'', ''application/json'')],
          body = Some (JSON_stringify_literal
                         [(''name'', Some (JStr ''Buy milk'')), (''description'', None)])\<rparr>
        = Inr response \<and> json response = Inr data \<longrightarrow>
      snd (call_tool env ''add_task'' (Some [(''name'', JStr ''Buy milk'')])) =
        \<lparr>content = [\<lparr>type = ''text'', text = JSON_stringify data 2\<rparr>], isError = None\<rparr>)"
proof (intro conjI impI)
  have requests: "fst (add_task env (Some [(''name'', JStr ''Buy milk'')])) =
     [\<lparr>url = API_BASE env, method = ''POST'',
       headers = [(''Content-Type'', ''application/json'')],
       body = Some (JSON_stringify_literal
                      [(''name'', Some (JStr ''Buy milk'')), (''description'', None)])\<rparr>]"
    using add_task_requests [of env "[(''name'', JStr ''Buy milk'')]"] by (simp add: get_def)
  then show "fst (call_tool env ''add_task'' (Some [(''name'', JStr ''Buy milk'')])) =
     [\<lparr>url = API_BASE env, method = ''POST'',
       headers = [(''Content-Type'', ''application/json'')],
       body = Some (JSON_stringify_literal
                      [(''name'', Some (JStr ''Buy milk'')), (''description'', None)])\<rparr>]"
    by (simp add: call_tool_fst dispatch_def)
  show "JSON_stringify_literal [(''name'', Some (JStr ''Buy milk'')), (''description'', None)] =
       ''{'' @ [CHR 0x22] @ ''name'' @ [CHR 0x22] @ '':'' @ [CHR 0x22] @ ''Buy milk'' @ [CHR 0x22] @ ''}''"
    by (rule JSON_stringify_buy_milk)
  assume h: "fetch env
         \<lparr>url = API_BASE env, method = ''POST'',
          headers = [(''Content-Type'', ''application/json'')],
          body = Some (JSON_stringify_literal
                         [(''name'', Some (JStr ''Buy milk'')), (''description'', None)])\<rparr>
        = Inr response \<and> json response = Inr data"
  from add_task_run [OF requests] h
  have "snd (add_task env (Some [(''name'', JStr ''Buy milk'')])) = return_json response"
    by simp
  with h show "snd (call_tool env ''add_task'' (Some [(''name'', JStr ''Buy milk'')])) =
        \<lparr>content = [\<lparr>type = ''text'', text = JSON_stringify data 2\<rparr>], isError = None\<rparr>"
    by (simp add: call_tool_snd dispatch_def return_json_Inr)
qed

text \<open>
  The theorem at a store that answers 200 with the record created.
\<close>

theorem add_task_buy_milk_witness:
  "snd (call_tool \<lparr>API_BASE = records_url,
                   fetch = store_replying 200 (Inr (JObj [(''id'', JStr ''r1''), (''name'', JStr ''Buy milk'')]))\<rparr>
          ''add_task'' (Some [(''name'', JStr ''Buy milk'')])) =
     \<lparr>content = [\<lparr>type = ''text'',
                  text = JSON_stringify (JObj [(''id'', JStr ''r1''), (''name'', JStr ''Buy milk'')]) 2\<rparr>],
      isError = None\<rparr>"
proof -
  let ?data = "JObj [(''id'', JStr ''r1''), (''name'', JStr ''Buy milk'')]"
  let ?env = "\<lparr>API_BASE = records_url, fetch = store_replying 200 (Inr ?data)\<rparr>"
  let ?response = "\<lparr>status = 200, json = Inr ?data\<rparr>"
  note reply = add_task_buy_milk [where env = ?env and response = ?response and data = ?data,
      THEN conjunct2, THEN conjunct2, rule_format]
  have "fetch ?env
         \<lparr>url = API_BASE ?env, method = ''POST'',
          headers = [(''Content-Type'', ''application/json'')],
          body = Some (JSON_stringify_literal
                         [(''name'', Some (JStr ''Buy milk'')), (''description'', None)])\<rparr>
        = Inr ?response \<and> json ?response = Inr ?data"
    by (simp add: store_replying_def)
  from reply [OF this] show ?thesis .
qed

section \<open>update_task\<close>

text \<open>
  C6, as amended. An update_task invocation that carries an argument bag whose
  \<open>task_id\<close> converts to a string (it is absent, or any value but an object with an own
  property \<open>toString\<close>, alone or inside an array) makes exactly one request: a PATCH to
  \<open><base>/<that string>\<close> whose body is the serialization of all the arguments except
  \<open>task_id\<close>, in their order and unexamined. For a string \<open>task_id\<close> the path segment is
  the string itself; \<open>{task_id: "abc123", done: true}\<close> gives a PATCH to \<open><base>/abc123\<close>
  with the body \<open>{"done":true}\<close>.
\<close>

theorem update_task_request:
  "(ToString (get a ''task_id'') = Inr segment \<longrightarrow>
      fst (call_tool env ''update_task'' (Some a)) =
        [\<lparr>url = API_BASE env @ ''/'' @ segment, method = ''PATCH'',
          headers = [(''Content-Type'', ''application/json'')],
          body = Some (JSON_stringify (JObj (filter (\<lambda>(k, v). k \<noteq> ''task_id'') a)) 0)\<rparr>])
   \<and> (get a ''task_id'' = Some (JStr s) \<longrightarrow>
      fst (call_tool env ''update_task'' (Some a)) =
        [\<lparr>url = API_BASE env @ ''/'' @ s, method = ''PATCH'',
          headers = [(''Content-Type'', ''application/json'')],
          body = Some (JSON_stringify (JObj (filter (\<lambda>(k, v). k \<noteq> ''task_id'') a)) 0)\<rparr>])
   \<and> fst (call_tool env ''update_task'' (Some [(''task_id'', JStr ''abc123''), (''done'', JBool True)])) =
        [\<lparr>url = API_BASE env @ ''/abc123'', method = ''PATCH'',
          headers = [(''Content-Type'', ''application/json'')],
          body = Some (''{'' @ [CHR 0x22] @ ''done'' @ [CHR 0x22] @ '':true}'')\<rparr>]"
proof (intro conjI impI)
  assume "ToString (get a ''task_id'') = Inr segment"
  from update_task_requests [OF this]
  show "fst (call_tool env ''update_task'' (Some a)) =
        [\<lparr>url = API_BASE env @ ''/'' @ segment, method = ''PATCH'',
          headers = [(''Content-Type'', ''application/json'')],
          body = Some (JSON_stringify (JObj (filter (\<lambda>(k, v). k \<noteq> ''task_id'') a)) 0)\<rparr>]"
    by (simp add: call_tool_fst dispatch_def)
next
  assume "get a ''task_id'' = Some (JStr s)"
  then have "ToString (get a ''task_id'') = Inr s"
    by (simp add: ToString_def)
  from update_task_requests [OF this]
  show "fst (call_tool env ''update_task'' (Some a)) =
        [\<lparr>url = API_BASE env @ ''/'' @ s, method = ''PATCH'',
          headers = [(''Content-Type'', ''application/json'')],
          body = Some (JSON_stringify (JObj (filter (\<lambda>(k, v). k \<noteq> ''task_id'') a)) 0)\<rparr>]"
    by (simp add: call_tool_fst dispatch_def)
next
  have "ToString (get [(''task_id'', JStr ''abc123''), (''done'', JBool True)] ''task_id'') = Inr ''abc123''"
    by (simp add: ToString_def get_def)
  from update_task_requests [OF this]
  show "fst (call_tool env ''update_task'' (Some [(''task_id'', JStr ''abc123''), (''done'', JBool True)])) =
        [\<lparr>url = API_BASE env @ ''/abc123'', method = ''PATCH'',
          headers = [(''Content-Type'', ''application/json'')],
          body = Some (''{'' @ [CHR 0x22] @ ''done'' @ [CHR 0x22] @ '':true}'')\<rparr>]"
    using JSON_stringify_done by (simp add: call_tool_fst dispatch_def)
qed

text \<open>
  The theorem at a numeric \<open>task_id\<close> with a field the catalog does not declare, and
  at the example of the claim.
\<close>

theorem update_task_request_witness:
  "fst (call_tool \<lparr>API_BASE = records_url, fetch = refusing_fetch\<rparr> ''update_task''
          (Some [(''task_id'', JNum 7), (''priority'', JNum 5)])) =
     [\<lparr>url = records_url @ ''/7'', method = ''PATCH'',
       headers = [(''Content-Type'', ''application/json'')],
       body = Some (JSON_stringify (JObj [(''priority'', JNum 5)]) 0)\<rparr>]
   \<and> fst (call_tool \<lparr>API_BASE = records_url, fetch = refusing_fetch\<rparr> ''update_task''
          (Some [(''task_id'', JStr ''abc123''), (''done'', JBool True)])) =
     [\<lparr>url = records_url @ ''/abc123'', method = ''PATCH'',
       headers = [(''Content-Type'', ''application/json'')],
       body = Some (JSON_stringify (JObj [(''done'', JBool True)]) 0)\<rparr>]"
proof (intro conjI)
  let ?env = "\<lparr>API_BASE = records_url, fetch = refusing_fetch\<rparr>"
  let ?a = "[(''task_id'', JNum 7), (''priority'', JNum 5)]"
  note converted = update_task_request [where env = ?env and a = ?a and segment = "''7''",
      THEN conjunct1, rule_format]
  have "ToString (get ?a ''task_id'') = Inr ''7''"
    by (simp add: ToString_def get_def Number_toString_def decimal.simps digit_def)
  from converted [OF this]
  show "fst (call_tool ?env ''update_task'' (Some ?a)) =
     [\<lparr>url = records_url @ ''/7'', method = ''PATCH'',
       headers = [(''Content-Type'', ''application/json'')],
       body = Some (JSON_stringify (JObj [(''priority'', JNum 5)]) 0)\<rparr>]"
    by simp
next
  let ?env = "\<lparr>API_BASE = records_url, fetch = refusing_fetch\<rparr>"
  let ?a = "[(''task_id'', JStr ''abc123''), (''done'', JBool True)]"
  note string = update_task_request [where env = ?env and a = ?a and s = "''abc123''",
      THEN conjunct2, THEN conjunct1, rule_format]
  have "get ?a ''task_id'' = Some (JStr ''abc123'')"
    by (simp add: get_def)
  from string [OF this]
  show "fst (call_tool ?env ''update_task'' (Some ?a)) =
     [\<lparr>url = records_url @ ''/abc123'', method = ''PATCH'',
       headers = [(''Content-Type'', ''application/json'')],
       body = Some (JSON_stringify (JObj [(''done'', JBool True)]) 0)\<rparr>]"
    by simp
qed

text \<open>
  C6 as stated, for every invocation, fails: with \<open>{task_id: {"toString": 1}, done: true}\<close>
  the template literal of the address throws a TypeError inside the \<open>try\<close> block, and no
  request is made; the envelope returned is the error envelope of the TypeError.
\<close>

theorem update_task_request_counterexample:
  "call_tool \<lparr>API_BASE = records_url, fetch = store_replying 200 (Inr (JObj []))\<rparr> ''update_task''
     (Some [(''task_id'', JObj [(''toString'', JNum 1)]), (''done'', JBool True)]) =
   ([], \<lparr>content = [\<lparr>type = ''text'', text = ''Error: Cannot convert object to primitive value''\<rparr>],
         isError = Some True\<rparr>)"
proof -
  have "ToString (get [(''task_id'', JObj [(''toString'', JNum 1)]), (''done'', JBool True)] ''task_id'')
      = Inl ''Cannot convert object to primitive value''"
    by (simp add: ToString_def get_def)
  from update_task_throws [OF this] show ?thesis
    by (simp add: call_tool_def dispatch_def)
qed

section \<open>delete_task\<close>

text \<open>
  C7. Whenever delete_task has made its request and the store has answered, the
  envelope returned is not an error and its only text is
  \<open>Task <task_id> deleted successfully\<close> when the status is between 200 and 299, and
  \<open>Failed to delete task <task_id>\<close> otherwise, \<open><task_id>\<close> being the string form of the
  argument: the result is a function of the status and of \<open>task_id\<close>, and
  \<open>response.json()\<close> is not consulted.
\<close>

theorem delete_task_outcome:
  "(\<forall>request response.
      fst (call_tool env ''delete_task'' args) = [request] \<and> fetch env request = Inr response \<longrightarrow>
      (\<exists>a segment. args = Some a \<and> ToString (get a ''task_id'') = Inr segment
         \<and> request = \<lparr>url = API_BASE env @ ''/'' @ segment, method = ''DELETE'', headers = [], body = None\<rparr>
         \<and> snd (call_tool env ''delete_task'' args) =
             \<lparr>content = [\<lparr>type = ''text'',
                          text = (if 200 \<le> status response \<and> status response \<le> 299
                                  then ''Task '' @ segment @ '' deleted successfully''
                                  else ''Failed to delete task '' @ segment)\<rparr>],
              isError = None\<rparr>))
   \<and> (get b ''task_id'' = Some (JStr s) \<and>
      fetch env \<lparr>url = API_BASE env @ ''/'' @ s, method = ''DELETE'', headers = [], body = None\<rparr>
        = Inr answer \<longrightarrow>
      call_tool env ''delete_task'' (Some b) =
        ([\<lparr>url = API_BASE env @ ''/'' @ s, method = ''DELETE'', headers = [], body = None\<rparr>],
         \<lparr>content = [\<lparr>type = ''text'',
                      text = (if 200 \<le> status answer \<and> status answer \<le> 299
                              then ''Task '' @ s @ '' deleted successfully''
                              else ''Failed to delete task '' @ s)\<rparr>],
          isError = None\<rparr>))"
proof (intro conjI allI impI)
  fix request response
  assume h: "fst (call_tool env ''delete_task'' args) = [request] \<and> fetch env request = Inr response"
  then have "fst (delete_task env args) = [request]"
    by (simp add: call_tool_fst dispatch_def)
  from delete_task_requests_cases [OF this] obtain a segment where
    args: "args = Some a" and segment: "ToString (get a ''task_id'') = Inr segment" and
    request: "request = \<lparr>url = API_BASE env @ ''/'' @ segment, method = ''DELETE'', headers = [], body = None\<rparr>"
    by blast
  from h request have "fetch env \<lparr>url = API_BASE env @ ''/'' @ segment, method = ''DELETE'', headers = [], body = None\<rparr>
      = Inr response"
    by simp
  from delete_task_result [OF segment this] args
  have "snd (call_tool env ''delete_task'' args) =
             \<lparr>content = [\<lparr>type = ''text'',
                          text = (if 200 \<le> status response \<and> status response \<le> 299
                                  then ''Task '' @ segment @ '' deleted successfully''
                                  else ''Failed to delete task '' @ segment)\<rparr>],
              isError = None\<rparr>"
    by (simp add: call_tool_snd dispatch_def ok_def)
  with args segment request
  show "\<exists>a segment. args = Some a \<and> ToString (get a ''task_id'') = Inr segment
         \<and> request = \<lparr>url = API_BASE env @ ''/'' @ segment, method = ''DELETE'', headers = [], body = None\<rparr>
         \<and> snd (call_tool env ''delete_task'' args) =
             \<lparr>content = [\<lparr>type = ''text'',
                          text = (if 200 \<le> status response \<and> status response \<le> 299
                                  then ''Task '' @ segment @ '' deleted successfully''
                                  else ''Failed to delete task '' @ segment)\<rparr>],
              isError = None\<rparr>"
    by (intro exI [of _ a] exI [of _ segment] conjI)
next
  assume h: "get b ''task_id'' = Some (JStr s) \<and>
      fetch env \<lparr>url = API_BASE env @ ''/'' @ s, method = ''DELETE'', headers = [], body = None\<rparr>
        = Inr answer"
  then have segment: "ToString (get b ''task_id'') = Inr s"
    by (simp add: ToString_def)
  from h have answer: "fetch env \<lparr>url = API_BASE env @ ''/'' @ s, method = ''DELETE'', headers = [], body = None\<rparr>
        = Inr answer"
    by simp
  have "fst (call_tool env ''delete_task'' (Some b)) =
      [\<lparr>url = API_BASE env @ ''/'' @ s, method = ''DELETE'', headers = [], body = None\<rparr>]"
    using delete_task_requests [OF segment] by (simp add: call_tool_fst dispatch_def)
  moreover have "snd (call_tool env ''delete_task'' (Some b)) =
         \<lparr>content = [\<lparr>type = ''text'',
                      text = (if 200 \<le> status answer \<and> status answer \<le> 299
                              then ''Task '' @ s @ '' deleted successfully''
                              else ''Failed to delete task '' @ s)\<rparr>],
          isError = None\<rparr>"
    using delete_task_result [OF segment answer] by (simp add: call_tool_snd dispatch_def ok_def)
  ultimately show "call_tool env ''delete_task'' (Some b) =
        ([\<lparr>url = API_BASE env @ ''/'' @ s, method = ''DELETE'', headers = [], body = None\<rparr>],
         \<lparr>content = [\<lparr>type = ''text'',
                      text = (if 200 \<le> status answer \<and> status answer \<le> 299
                              then ''Task '' @ s @ '' deleted successfully''
                              else ''Failed to delete task '' @ s)\<rparr>],
          isError = None\<rparr>)"
    by (simp add: prod_eq_iff)
qed

text \<open>
  The theorem at \<open>{task_id: "abc123"}\<close> against a store answering 200 with a body that
  is not JSON, against a store answering 404, and at a numeric \<open>task_id\<close> against a store
  answering 500.
\<close>

theorem delete_task_outcome_witness:
  "call_tool \<lparr>API_BASE = records_url, fetch = store_replying 200 (Inl ''Unexpected end of JSON input'')\<rparr>
       ''delete_task'' (Some [(''task_id'', JStr ''abc123'')]) =
     ([\<lparr>url = records_url @ ''/abc123'', method = ''DELETE'', headers = [], body = None\<rparr>],
      \<lparr>content = [\<lparr>type = ''text'', text = ''Task abc123 deleted successfully''\<rparr>], isError = None\<rparr>)
   \<and> call_tool \<lparr>API_BASE = records_url, fetch = store_replying 404 (Inr (JObj [(''code'', JNum 404)]))\<rparr>
       ''delete_task'' (Some [(''task_id'', JStr ''abc123'')]) =
     ([\<lparr>url = records_url @ ''/abc123'', method = ''DELETE'', headers = [], body = None\<rparr>],
      \<lparr>content = [\<lparr>type = ''text'', text = ''Failed to delete task abc123''\<rparr>], isError = None\<rparr>)
   \<and> (\<exists>a segment. Some [(''task_id'', JNum 7)] = Some a \<and> ToString (get a ''task_id'') = Inr segment
         \<and> \<lparr>url = records_url @ ''/7'', method = ''DELETE'', headers = [], body = None\<rparr> =
             \<lparr>url = API_BASE \<lparr>API_BASE = records_url, fetch = store_replying 500 (Inr JNull)\<rparr>
                      @ ''/'' @ segment,
              method = ''DELETE'', headers = [], body = None\<rparr>
         \<and> snd (call_tool \<lparr>API_BASE = records_url, fetch = store_replying 500 (Inr JNull)\<rparr>
                  ''delete_task'' (Some [(''task_id'', JNum 7)])) =
             \<lparr>content = [\<lparr>type = ''text'',
                          text = (if 200 \<le> status \<lparr>status = 500, json = Inr JNull\<rparr> \<and>
                                     status \<lparr>status = 500, json = Inr JNull\<rparr> \<le> 299
                                  then ''Task '' @ segment @ '' deleted successfully''
                                  else ''Failed to delete task '' @ segment)\<rparr>],
              isError = None\<rparr>)"
proof (intro conjI)
  let ?env = "\<lparr>API_BASE = records_url, fetch = store_replying 200 (Inl ''Unexpected end of JSON input'')\<rparr>"
  let ?b = "[(''task_id'', JStr ''abc123'')]"
  let ?answer = "\<lparr>status = 200, json = Inl ''Unexpected end of JSON input''\<rparr>"
  note success = delete_task_outcome [where env = ?env and b = ?b and s = "''abc123''"
      and answer = ?answer, THEN conjunct2, rule_format]
  have "get ?b ''task_id'' = Some (JStr ''abc123'') \<and>
      fetch ?env \<lparr>url = API_BASE ?env @ ''/'' @ ''abc123'', method = ''DELETE'', headers = [], body = None\<rparr>
        = Inr ?answer"
    by (simp add: get_def store_replying_def)
  from success [OF this]
  show "call_tool ?env ''delete_task'' (Some ?b) =
     ([\<lparr>url = records_url @ ''/abc123'', method = ''DELETE'', headers = [], body = None\<rparr>],
      \<lparr>content = [\<lparr>type = ''text'', text = ''Task abc123 deleted successfully''\<rparr>], isError = None\<rparr>)"
    by simp
next
  let ?env = "\<lparr>API_BASE = records_url, fetch = store_replying 404 (Inr (JObj [(''code'', JNum 404)]))\<rparr>"
  let ?b = "[(''task_id'', JStr ''abc123'')]"
  let ?answer = "\<lparr>status = 404, json = Inr (JObj [(''code'', JNum 404)])\<rparr>"
  note failure = delete_task_outcome [where env = ?env and b = ?b and s = "''abc123''"
      and answer = ?answer, THEN conjunct2, rule_format]
  have "get ?b ''task_id'' = Some (JStr ''abc123'') \<and>
      fetch ?env \<lparr>url = API_BASE ?env @ ''/'' @ ''abc123'', method = ''DELETE'', headers = [], body = None\<rparr>
        = Inr ?answer"
    by (simp add: get_def store_replying_def)
  from failure [OF this]
  show "call_tool ?env ''delete_task'' (Some ?b) =
     ([\<lparr>url = records_url @ ''/abc123'', method = ''DELETE'', headers = [], body = None\<rparr>],
      \<lparr>content = [\<lparr>type = ''text'', text = ''Failed to delete task abc123''\<rparr>], isError = None\<rparr>)"
    by simp
next
  let ?env = "\<lparr>API_BASE = records_url, fetch = store_replying 500 (Inr JNull)\<rparr>"
  let ?args = "Some [(''task_id'', JNum 7)]"
  let ?request = "\<lparr>url = records_url @ ''/7'', method = ''DELETE'', headers = [], body = None\<rparr>"
  let ?response = "\<lparr>status = 500, json = Inr JNull\<rparr>"
  note any = delete_task_outcome [where env = ?env and args = ?args, THEN conjunct1, rule_format,
      of ?request ?response]
  have "ToString (get [(''task_id'', JNum 7)] ''task_id'') = Inr ''7''"
    by (simp add: ToString_def get_def Number_toString_def decimal.simps digit_def)
  from delete_task_requests [OF this, of ?env]
  have "fst (call_tool ?env ''delete_task'' ?args) = [?request] \<and> fetch ?env ?request = Inr ?response"
    by (simp add: call_tool_fst dispatch_def store_replying_def)
  from any [OF this]
  show "\<exists>a segment. ?args = Some a \<and> ToString (get a ''task_id'') = Inr segment
         \<and> ?request = \<lparr>url = API_BASE ?env @ ''/'' @ segment,
              method = ''DELETE'', headers = [], body = None\<rparr>
         \<and> snd (call_tool ?env ''delete_task'' ?args) =
             \<lparr>content = [\<lparr>type = ''text'',
                          text = (if 200 \<le> status ?response \<and> status ?response \<le> 299
                                  then ''Task '' @ segment @ '' deleted successfully''
                                  else ''Failed to delete task '' @ segment)\<rparr>],
              isError = None\<rparr>" .
qed

section \<open>Answers with an error status\<close>

text \<open>
  C8. For add_task, list_tasks and update_task, an answer whose body parses to
  \<open>data\<close> gives the envelope without error flag whose only text is
  \<open>JSON.stringify(data, null, 2)\<close>, whatever the status of the answer: an answer with a
  status outside 200 to 299 is treated as a successful one.
\<close>

theorem remote_error_is_content:
  "name \<in> {''add_task'', ''list_tasks'', ''update_task''} \<and>
   fst (call_tool env name args) = [request] \<and> fetch env request = Inr response \<and>
   json response = Inr data \<longrightarrow>
     snd (call_tool env name args) =
       \<lparr>content = [\<lparr>type = ''text'', text = JSON_stringify data 2\<rparr>], isError = None\<rparr>"
proof
  assume h: "name \<in> {''add_task'', ''list_tasks'', ''update_task''} \<and>
   fst (call_tool env name args) = [request] \<and> fetch env request = Inr response \<and>
   json response = Inr data"
  then have "snd (dispatch env name args) = return_json response"
    using dispatch_json_throws [of name env args request response] by (simp add: call_tool_fst)
  with h show "snd (call_tool env name args) =
       \<lparr>content = [\<lparr>type = ''text'', text = JSON_stringify data 2\<rparr>], isError = None\<rparr>"
    by (simp add: call_tool_snd return_json_Inr)
qed

text \<open>
  The theorem at update_task against a store answering 400 with \<open>{"code": 400}\<close>.
\<close>

theorem remote_error_is_content_witness:
  "\<not> ok \<lparr>status = 400, json = Inr (JObj [(''code'', JNum 400)])\<rparr>
   \<and> snd (call_tool \<lparr>API_BASE = records_url, fetch = store_replying 400 (Inr (JObj [(''code'', JNum 400)]))\<rparr>
          ''update_task'' (Some [(''task_id'', JStr ''abc123''), (''done'', JBool True)])) =
     \<lparr>content = [\<lparr>type = ''text'', text = JSON_stringify (JObj [(''code'', JNum 400)]) 2\<rparr>],
      isError = None\<rparr>
   \<and> JSON_stringify (JObj [(''code'', JNum 400)]) 2 =
       ''{'' @ [CHR 0x0A] @ ''  '' @ [CHR 0x22] @ ''code'' @ [CHR 0x22] @ '': 400'' @ [CHR 0x0A] @ ''}''"
proof (intro conjI)
  show "\<not> ok \<lparr>status = 400, json = Inr (JObj [(''code'', JNum 400)])\<rparr>"
    by (simp add: ok_def)
next
  let ?data = "JObj [(''code'', JNum 400)]"
  let ?env = "\<lparr>API_BASE = records_url, fetch = store_replying 400 (Inr ?data)\<rparr>"
  let ?a = "[(''task_id'', JStr ''abc123''), (''done'', JBool True)]"
  let ?request = "\<lparr>url = records_url @ ''/abc123'', method = ''PATCH'',
       headers = [(''Content-Type'', ''application/json'')],
       body = Some (JSON_stringify (JObj [(''done'', JBool True)]) 0)\<rparr>"
  let ?response = "\<lparr>status = 400, json = Inr ?data\<rparr>"
  note reply = remote_error_is_content [where env = ?env and name = "''update_task''"
      and args = "Some ?a" and request = ?request and response = ?response and data = ?data,
      rule_format]
  have "ToString (get ?a ''task_id'') = Inr ''abc123''"
    by (simp add: ToString_def get_def)
  from update_task_requests [OF this, of ?env]
  have "''update_task'' \<in> {''add_task'', ''list_tasks'', ''update_task''} \<and>
     fst (call_tool ?env ''update_task'' (Some ?a)) = [?request] \<and>
     fetch ?env ?request = Inr ?response \<and> json ?response = Inr ?data"
    by (simp add: call_tool_fst dispatch_def store_replying_def)
  from reply [OF this]
  show "snd (call_tool ?env ''update_task'' (Some ?a)) =
     \<lparr>content = [\<lparr>type = ''text'', text = JSON_stringify ?data 2\<rparr>], isError = None\<rparr>" .
next
  show "JSON_stringify (JObj [(''code'', JNum 400)]) 2 =
       ''{'' @ [CHR 0x0A] @ ''  '' @ [CHR 0x22] @ ''code'' @ [CHR 0x22] @ '': 400'' @ [CHR 0x0A] @ ''}''"
  proof -
    have gap: "replicate (min 10 2) CHR '' '' = ''  ''"
      by (simp add: numeral_2_eq_2)
    have number: "Number_toString 400 = ''400''"
      by (simp add: Number_toString_def decimal.simps digit_def)
    show ?thesis
      unfolding JSON_stringify_def gap
      by (simp add: QuoteJSONString_def quote_char_def join_def Let_def number)
  qed
qed

section \<open>Falsy parameters of list_tasks\<close>

text \<open>
  C9. A parameter of list_tasks among \<open>filter\<close>, \<open>sort\<close>, \<open>page\<close> whose value is
  falsy, as the empty string and the number 0 are, is treated as if it were absent: the
  invocation makes the same requests and returns the same envelope as the invocation
  with that key removed from the bag. When all three are falsy the request goes to the
  base address with no \<open>?\<close>.
\<close>

theorem list_tasks_falsy_as_absent:
  "(k \<in> {''filter'', ''sort'', ''page''} \<and> \<not> truthy (get a k) \<longrightarrow>
      call_tool env ''list_tasks'' (Some a) =
      call_tool env ''list_tasks'' (Some (filter (\<lambda>(k', v). k' \<noteq> k) a)))
   \<and> (\<not> truthy (get a ''filter'') \<and> \<not> truthy (get a ''sort'') \<and> \<not> truthy (get a ''page'') \<longrightarrow>
        fst (call_tool env ''list_tasks'' (Some a)) =
          [\<lparr>url = API_BASE env, method = ''GET'', headers = [], body = None\<rparr>])
   \<and> \<not> truthy (Some (JStr [])) \<and> \<not> truthy (Some (JNum 0))"
proof (intro conjI impI)
  assume "k \<in> {''filter'', ''sort'', ''page''} \<and> \<not> truthy (get a k)"
  then have "list_tasks_params (filter (\<lambda>(k', v). k' \<noteq> k) a) = list_tasks_params a"
    using list_tasks_params_falsy [of k a] by simp
  then have "list_tasks env (Some a) = list_tasks env (Some (filter (\<lambda>(k', v). k' \<noteq> k) a))"
    by (intro list_tasks_cong) simp
  then show "call_tool env ''list_tasks'' (Some a) =
      call_tool env ''list_tasks'' (Some (filter (\<lambda>(k', v). k' \<noteq> k) a))"
    by (simp add: call_tool_def dispatch_def)
next
  assume "\<not> truthy (get a ''filter'') \<and> \<not> truthy (get a ''sort'') \<and> \<not> truthy (get a ''page'')"
  then have "list_tasks_params a = Inr []"
    by (intro list_tasks_params_none) simp_all
  from list_tasks_requests_Inr [OF this]
  show "fst (call_tool env ''list_tasks'' (Some a)) =
          [\<lparr>url = API_BASE env, method = ''GET'', headers = [], body = None\<rparr>]"
    by (simp add: call_tool_fst dispatch_def)
qed simp_all

text \<open>
  The theorem at \<open>{filter: "", sort: "name", page: 0}\<close> for \<open>page\<close>, and at
  \<open>{filter: "", sort: "", page: 0}\<close>.
\<close>

theorem list_tasks_falsy_as_absent_witness:
  "call_tool \<lparr>API_BASE = records_url, fetch = refusing_fetch\<rparr> ''list_tasks''
       (Some [(''filter'', JStr ''''), (''sort'', JStr ''name''), (''page'', JNum 0)]) =
   call_tool \<lparr>API_BASE = records_url, fetch = refusing_fetch\<rparr> ''list_tasks''
       (Some (filter (\<lambda>(k', v). k' \<noteq> ''page'')
                [(''filter'', JStr ''''), (''sort'', JStr ''name''), (''page'', JNum 0)]))
   \<and> fst (call_tool \<lparr>API_BASE = records_url, fetch = refusing_fetch\<rparr> ''list_tasks''
            (Some [(''filter'', JStr ''''), (''sort'', JStr ''''), (''page'', JNum 0)])) =
     [\<lparr>url = records_url, method = ''GET'', headers = [], body = None\<rparr>]"
proof (intro conjI)
  let ?env = "\<lparr>API_BASE = records_url, fetch = refusing_fetch\<rparr>"
  let ?a = "[(''filter'', JStr ''''), (''sort'', JStr ''name''), (''page'', JNum 0)]"
  note one = list_tasks_falsy_as_absent [where env = ?env and a = ?a and k = "''page''",
      THEN conjunct1, rule_format]
  have "''page'' \<in> {''filter'', ''sort'', ''page''} \<and> \<not> truthy (get ?a ''page'')"
    by (simp add: get_def)
  from one [OF this]
  show "call_tool ?env ''list_tasks'' (Some ?a) =
      call_tool ?env ''list_tasks'' (Some (filter (\<lambda>(k', v). k' \<noteq> ''page'') ?a))" .
next
  let ?env = "\<lparr>API_BASE = records_url, fetch = refusing_fetch\<rparr>"
  let ?a = "[(''filter'', JStr ''''), (''sort'', JStr ''''), (''page'', JNum 0)]"
  note all = list_tasks_falsy_as_absent [where env = ?env and a = ?a,
      THEN conjunct2, THEN conjunct1, rule_format]
  have "\<not> truthy (get ?a ''filter'') \<and> \<not> truthy (get ?a ''sort'') \<and> \<not> truthy (get ?a ''page'')"
    by (simp add: get_def)
  from all [OF this]
  show "fst (call_tool ?env ''list_tasks'' (Some ?a)) =
     [\<lparr>url = records_url, method = ''GET'', headers = [], body = None\<rparr>]"
    by simp
qed

section \<open>A missing task_id\<close>

text \<open>
  C10. With an argument bag that has no \<open>task_id\<close>, update_task and delete_task fail
  nowhere before the network call: the one request is made, to \<open><base>/undefined\<close>
  (update_task with the whole bag as body), and the invocation goes on as usual from the
  outcome of \<open>fetch\<close>.
\<close>

theorem missing_task_id:
  "get a ''task_id'' = None \<longrightarrow>
     fst (call_tool env ''update_task'' (Some a)) =
       [\<lparr>url = API_BASE env @ ''/undefined'', method = ''PATCH'',
         headers = [(''Content-Type'', ''application/json'')],
         body = Some (JSON_stringify (JObj a) 0)\<rparr>]
   \<and> snd (call_tool env ''update_task'' (Some a)) =
       (case fetch env \<lparr>url = API_BASE env @ ''/undefined'', method = ''PATCH'',
                        headers = [(''Content-Type'', ''application/json'')],
                        body = Some (JSON_stringify (JObj a) 0)\<rparr> of
          Inl message \<Rightarrow>
            \<lparr>content = [\<lparr>type = ''text'', text = ''Error: '' @ message\<rparr>], isError = Some True\<rparr>
        | Inr response \<Rightarrow>
            (case json response of
               Inl message \<Rightarrow>
                 \<lparr>content = [\<lparr>type = ''text'', text = ''Error: '' @ message\<rparr>], isError = Some True\<rparr>
             | Inr data \<Rightarrow>
                 \<lparr>content = [\<lparr>type = ''text'', text = JSON_stringify data 2\<rparr>], isError = None\<rparr>))
   \<and> fst (call_tool env ''delete_task'' (Some a)) =
       [\<lparr>url = API_BASE env @ ''/undefined'', method = ''DELETE'', headers = [], body = None\<rparr>]
   \<and> snd (call_tool env ''delete_task'' (Some a)) =
       (case fetch env \<lparr>url = API_BASE env @ ''/undefined'', method = ''DELETE'', headers = [],
                        body = None\<rparr> of
          Inl message \<Rightarrow>
            \<lparr>content = [\<lparr>type = ''text'', text = ''Error: '' @ message\<rparr>], isError = Some True\<rparr>
        | Inr response \<Rightarrow>
            \<lparr>content = [\<lparr>type = ''text'',
                         text = (if 200 \<le> status response \<and> status response \<le> 299
                                 then ''Task undefined deleted successfully''
                                 else ''Failed to delete task undefined'')\<rparr>],
             isError = None\<rparr>)"
proof
  assume absent: "get a ''task_id'' = None"
  then have segment: "ToString (get a ''task_id'') = Inr ''undefined''"
    by (simp add: ToString_def)
  have updateData: "filter (\<lambda>(k, v). k \<noteq> ''task_id'') a = a"
    using absent by (rule without_absent)
  have update: "fst (update_task env (Some a)) =
       [\<lparr>url = API_BASE env @ ''/undefined'', method = ''PATCH'',
         headers = [(''Content-Type'', ''application/json'')],
         body = Some (JSON_stringify (JObj a) 0)\<rparr>]"
    using update_task_requests [OF segment, of env] by (simp add: updateData)
  have delete: "fst (delete_task env (Some a)) =
       [\<lparr>url = API_BASE env @ ''/undefined'', method = ''DELETE'', headers = [], body = None\<rparr>]"
    using delete_task_requests [OF segment, of env] by simp
  have c1: "fst (call_tool env ''update_task'' (Some a)) =
       [\<lparr>url = API_BASE env @ ''/undefined'', method = ''PATCH'',
         headers = [(''Content-Type'', ''application/json'')],
         body = Some (JSON_stringify (JObj a) 0)\<rparr>]"
    using update by (simp add: call_tool_fst dispatch_def)
  have c2: "snd (call_tool env ''update_task'' (Some a)) =
       (case fetch env \<lparr>url = API_BASE env @ ''/undefined'', method = ''PATCH'',
                        headers = [(''Content-Type'', ''application/json'')],
                        body = Some (JSON_stringify (JObj a) 0)\<rparr> of
          Inl message \<Rightarrow>
            \<lparr>content = [\<lparr>type = ''text'', text = ''Error: '' @ message\<rparr>], isError = Some True\<rparr>
        | Inr response \<Rightarrow>
            (case json response of
               Inl message \<Rightarrow>
                 \<lparr>content = [\<lparr>type = ''text'', text = ''Error: '' @ message\<rparr>], isError = Some True\<rparr>
             | Inr data \<Rightarrow>
                 \<lparr>content = [\<lparr>type = ''text'', text = JSON_stringify data 2\<rparr>], isError = None\<rparr>))"
    using update_task_run [OF update]
    by (simp add: call_tool_snd dispatch_def return_json_def split: sum.splits)
  have c3: "fst (call_tool env ''delete_task'' (Some a)) =
       [\<lparr>url = API_BASE env @ ''/undefined'', method = ''DELETE'', headers = [], body = None\<rparr>]"
    using delete by (simp add: call_tool_fst dispatch_def)
  have c4: "snd (call_tool env ''delete_task'' (Some a)) =
       (case fetch env \<lparr>url = API_BASE env @ ''/undefined'', method = ''DELETE'', headers = [],
                        body = None\<rparr> of
          Inl message \<Rightarrow>
            \<lparr>content = [\<lparr>type = ''text'', text = ''Error: '' @ message\<rparr>], isError = Some True\<rparr>
        | Inr response \<Rightarrow>
            \<lparr>content = [\<lparr>type = ''text'',
                         text = (if 200 \<le> status response \<and> status response \<le> 299
                                 then ''Task undefined deleted successfully''
                                 else ''Failed to delete task undefined'')\<rparr>],
             isError = None\<rparr>)"
    using delete_task_snd [OF segment, of env]
    by (simp add: call_tool_snd dispatch_def ok_def split: sum.splits)
  from c1 c2 c3 c4 show "fst (call_tool env ''update_task'' (Some a)) =
       [\<lparr>url = API_BASE env @ ''/undefined'', method = ''PATCH'',
         headers = [(''Content-Type'', ''application/json'')],
         body = Some (JSON_stringify (JObj a) 0)\<rparr>]
   \<and> snd (call_tool env ''update_task'' (Some a)) =
       (case fetch env \<lparr>url = API_BASE env @ ''/undefined'', method = ''PATCH'',
                        headers = [(''Content-Type'', ''application/json'')],
                        body = Some (JSON_stringify (JObj a) 0)\<rparr> of
          Inl message \<Rightarrow>
            \<lparr>content = [\<lparr>type = ''text'', text = ''Error: '' @ message\<rparr>], isError = Some True\<rparr>
        | Inr response \<Rightarrow>
            (case json response of
               Inl message \<Rightarrow>
                 \<lparr>content = [\<lparr>type = ''text'', text = ''Error: '' @ message\<rparr>], isError = Some True\<rparr>
             | Inr data \<Rightarrow>
                 \<lparr>content = [\<lparr>type = ''text'', text = JSON_stringify data 2\<rparr>], isError = None\<rparr>))
   \<and> fst (call_tool env ''delete_task'' (Some a)) =
       [\<lparr>url = API_BASE env @ ''/undefined'', method = ''DELETE'', headers = [], body = None\<rparr>]
   \<and> snd (call_tool env ''delete_task'' (Some a)) =
       (case fetch env \<lparr>url = API_BASE env @ ''/undefined'', method = ''DELETE'', headers = [],
                        body = None\<rparr> of
          Inl message \<Rightarrow>
            \<lparr>content = [\<lparr>type = ''text'', text = ''Error: '' @ message\<rparr>], isError = Some True\<rparr>
        | Inr response \<Rightarrow>
            \<lparr>content = [\<lparr>type = ''text'',
                         text = (if 200 \<le> status response \<and> status response \<le> 299
                                 then ''Task undefined deleted successfully''
                                 else ''Failed to delete task undefined'')\<rparr>],
             isError = None\<rparr>)"
    by (intro conjI)
qed

text \<open>
  The theorem at \<open>{done: true}\<close> against a store answering 404.
\<close>

theorem missing_task_id_witness:
  "fst (call_tool \<lparr>API_BASE = records_url, fetch = store_replying 404 (Inr (JObj [(''code'', JNum 404)]))\<rparr>
          ''update_task'' (Some [(''done'', JBool True)])) =
     [\<lparr>url = records_url @ ''/undefined'', method = ''PATCH'',
       headers = [(''Content-Type'', ''application/json'')],
       body = Some (JSON_stringify (JObj [(''done'', JBool True)]) 0)\<rparr>]
   \<and> snd (call_tool \<lparr>API_BASE = records_url, fetch = store_replying 404 (Inr (JObj [(''code'', JNum 404)]))\<rparr>
          ''update_task'' (Some [(''done'', JBool True)])) =
     \<lparr>content = [\<lparr>type = ''text'', text = JSON_stringify (JObj [(''code'', JNum 404)]) 2\<rparr>],
      isError = None\<rparr>
   \<and> fst (call_tool \<lparr>API_BASE = records_url, fetch = store_replying 404 (Inr (JObj [(''code'', JNum 404)]))\<rparr>
          ''delete_task'' (Some [(''done'', JBool True)])) =
     [\<lparr>url = records_url @ ''/undefined'', method = ''DELETE'', headers = [], body = None\<rparr>]
   \<and> snd (call_tool \<lparr>API_BASE = records_url, fetch = store_replying 404 (Inr (JObj [(''code'', JNum 404)]))\<rparr>
          ''delete_task'' (Some [(''done'', JBool True)])) =
     \<lparr>content = [\<lparr>type = ''text'', text = ''Failed to delete task undefined''\<rparr>], isError = None\<rparr>"
proof -
  let ?env = "\<lparr>API_BASE = records_url, fetch = store_replying 404 (Inr (JObj [(''code'', JNum 404)]))\<rparr>"
  let ?a = "[(''done'', JBool True)]"
  note missing = missing_task_id [where env = ?env and a = ?a, rule_format]
  have "get ?a ''task_id'' = None"
    by (simp add: get_def)
  from missing [OF this] show ?thesis
    by (simp add: store_replying_def)
qed

end
